theory Spec2Isabelle
  imports Complex_Main "HOL-Library.AList" "HOL-Library.Sublist"
begin

section \<open>Python strings and integer literals\<close>

text \<open>
  Python strings are modelled as HOL strings, a character being a code point below 256.
  Exceptions are values of type \<open>error\<close>; every \<open>ValueError\<close> raised by the loader carries
  the place that raised it, so that the different fatal conditions can be told apart.
\<close>

datatype value_error =
    IllegalRootTag
  | UnrecognizedNamespace
  | UnparsableVersion
  | UnsupportedVersion
  | InvalidLiteral
  | DuplicatePath string
  | MultipleDefaultRefbase string
  | GlobalRefbase
  | DuplicateRefbaseName string string
  | UnknownReferenceBase
  | NonExistingNode
  | DanglingReference string
  | NonUniqueChild string
  | NotUniqueNode
  | NumeratorCount nat
  | DenominatorCount nat
  | ExpectedOneCom nat
  | NoComPduIdRef
  | NoParameterValues
  | NoReferenceValues

datatype error =
    ValueError value_error
  | AttributeError
  | TypeError
  | AssertionError
  | NameError
  | KeyError
  | IndexError
  | ArithmeticError
  | RecursionError
  | NotImplementedError

text \<open>\<open>str.isspace\<close> on one character, for the code points below 256.\<close>

definition py_isspace :: "char \<Rightarrow> bool" where
  "py_isspace c =
     (let n = (of_char c :: nat)
      in (9 \<le> n \<and> n \<le> 13) \<or> (28 \<le> n \<and> n \<le> 32) \<or> n = 133 \<or> n = 160)"

text \<open>\<open>str.isdigit\<close> on one character: the ASCII digits and the superscripts 1, 2, 3.\<close>

definition py_isdigit :: "char \<Rightarrow> bool" where
  "py_isdigit c =
     (let n = (of_char c :: nat)
      in (48 \<le> n \<and> n \<le> 57) \<or> n = 178 \<or> n = 179 \<or> n = 185)"

definition strip :: "string \<Rightarrow> string" where
  "strip s = rev (dropWhile py_isspace (rev (dropWhile py_isspace s)))"

definition lower_char :: "char \<Rightarrow> char" where
  "lower_char c =
     (let n = (of_char c :: nat)
      in if (65 \<le> n \<and> n \<le> 90) \<or> (192 \<le> n \<and> n \<le> 222 \<and> n \<noteq> 215)
         then char_of (n + 32) else c)"

definition lower :: "string \<Rightarrow> string" where
  "lower s = map lower_char s"

text \<open>
  \<open>int(s, base)\<close> of CPython on a string: non-ASCII white space becomes a blank and any
  other non-ASCII character a question mark; then white space, a sign, the base prefix
  (with base 0 the prefix selects the base, and a leading zero without prefix is allowed
  for the value zero only), and digits separated by single underscores.
\<close>

definition to_ascii :: "char \<Rightarrow> char" where
  "to_ascii c =
     (if (of_char c :: nat) < 128 then c
      else if py_isspace c then CHR '' '' else CHR ''?'')"

definition c_isspace :: "char \<Rightarrow> bool" where
  "c_isspace c = (let n = (of_char c :: nat) in (9 \<le> n \<and> n \<le> 13) \<or> n = 32)"

definition digit_value :: "char \<Rightarrow> nat" where
  "digit_value c =
     (let n = (of_char c :: nat)
      in if 48 \<le> n \<and> n \<le> 57 then n - 48
         else if 97 \<le> n \<and> n \<le> 122 then n - 87
         else if 65 \<le> n \<and> n \<le> 90 then n - 55
         else 37)"

fun scan_digits :: "nat \<Rightarrow> char \<Rightarrow> nat \<Rightarrow> nat \<Rightarrow> string \<Rightarrow> (nat \<times> nat \<times> string) option" where
  "scan_digits b prev acc n [] = (if prev = CHR ''_'' then None else Some (acc, n, []))"
| "scan_digits b prev acc n (c # cs) =
     (if c = CHR ''_'' then (if prev = CHR ''_'' then None else scan_digits b c acc n cs)
      else if digit_value c < b then scan_digits b c (acc * b + digit_value c) (Suc n) cs
      else if prev = CHR ''_'' then None
      else Some (acc, n, c # cs))"

definition split_sign :: "string \<Rightarrow> bool \<times> string" where
  "split_sign s =
     (case s of
        [] \<Rightarrow> (False, [])
      | c # cs \<Rightarrow>
          if c = CHR ''+'' then (False, cs)
          else if c = CHR ''-'' then (True, cs)
          else (False, s))"

definition detect_base :: "nat \<Rightarrow> string \<Rightarrow> nat \<times> bool" where
  "detect_base base s =
     (if base \<noteq> 0 then (base, False)
      else if take 1 s \<noteq> ''0'' then (10, False)
      else if take 1 (drop 1 s) = ''x'' \<or> take 1 (drop 1 s) = ''X'' then (16, False)
      else if take 1 (drop 1 s) = ''o'' \<or> take 1 (drop 1 s) = ''O'' then (8, False)
      else if take 1 (drop 1 s) = ''b'' \<or> take 1 (drop 1 s) = ''B'' then (2, False)
      else (10, True))"

definition skip_prefix :: "nat \<Rightarrow> string \<Rightarrow> string" where
  "skip_prefix base s =
     (if take 1 s = ''0'' \<and>
         ((base = 16 \<and> (take 1 (drop 1 s) = ''x'' \<or> take 1 (drop 1 s) = ''X'')) \<or>
          (base = 8 \<and> (take 1 (drop 1 s) = ''o'' \<or> take 1 (drop 1 s) = ''O'')) \<or>
          (base = 2 \<and> (take 1 (drop 1 s) = ''b'' \<or> take 1 (drop 1 s) = ''B'')))
      then (if take 1 (drop 2 s) = ''_'' then drop 3 s else drop 2 s)
      else s)"

definition py_int :: "string \<Rightarrow> nat \<Rightarrow> error + int" where
  "py_int s base0 =
     (let (neg, s2) = split_sign (dropWhile c_isspace (map to_ascii s));
          (base, error_if_nonzero) = detect_base base0 s2;
          s3 = skip_prefix base s2
      in if take 1 s3 = ''_'' then Inl (ValueError InvalidLiteral)
         else
           (case scan_digits base (CHR 0x00) 0 0 s3 of
              None \<Rightarrow> Inl (ValueError InvalidLiteral)
            | Some (v, n, rest) \<Rightarrow>
                if error_if_nonzero \<and> v \<noteq> 0 then Inl (ValueError InvalidLiteral)
                else if n = 0 then Inl (ValueError InvalidLiteral)
                else if dropWhile c_isspace rest \<noteq> [] then Inl (ValueError InvalidLiteral)
                else Inr (if neg then - int v else int v)))"

text \<open>\<open>parse_int_string\<close>: the empty string is 0, a leading zero before a digit is octal.\<close>

definition parse_int_string :: "string \<Rightarrow> error + int" where
  "parse_int_string in_string0 =
     (let in_string = strip in_string0
      in if in_string = [] then Inr 0
         else if take 1 in_string = ''0'' \<and> list_ex py_isdigit (take 1 (drop 1 in_string))
         then py_int in_string 8
         else py_int in_string 0)"

text \<open>The value of a digit string read in a base, most significant digit first.\<close>

definition digits_value :: "nat \<Rightarrow> string \<Rightarrow> nat" where
  "digits_value b ds = foldl (\<lambda>acc c. acc * b + digit_value c) 0 ds"

definition is_digit_below :: "nat \<Rightarrow> char \<Rightarrow> bool" where
  "is_digit_below b c = (c \<noteq> CHR ''_'' \<and> digit_value c < b)"

section \<open>XML documents\<close>

text \<open>
  An element of the parsed document, as \<open>xml.etree.ElementTree\<close> gives it: the tag in the
  form \<open>{namespace}NAME\<close>, the attributes, the text (\<open>None\<close> for an empty element) and the
  children in document order. A node is an element together with its position (the child
  indices from the root): the position stands for the identity of the Python object.
\<close>

datatype element =
  Element (etag: string) (eattrib: "(string \<times> string) list") (etext: "string option")
    (echildren: "element list")

type_synonym node = "nat list \<times> element"

definition node_children :: "node \<Rightarrow> node list" where
  "node_children n =
     map (\<lambda>(i, c). (fst n @ [i], c)) (zip [0..<length (echildren (snd n))] (echildren (snd n)))"

text \<open>The tag \<open>{namespace}NAME\<close>.\<close>

definition ns_tag :: "string \<Rightarrow> string \<Rightarrow> string" where
  "ns_tag ns name = ''{'' @ ns @ ''}'' @ name"

text \<open>\<open>elem.find('ns:NAME')\<close>: the first child with that tag.\<close>

definition find_child :: "string \<Rightarrow> node \<Rightarrow> string \<Rightarrow> node option" where
  "find_child ns n name = List.find (\<lambda>c. etag (snd c) = ns_tag ns name) (node_children n)"

text \<open>Formatting of a value that may be \<open>None\<close> inside an f-string.\<close>

definition py_str :: "string option \<Rightarrow> string" where
  "py_str t = (case t of None \<Rightarrow> ''None'' | Some s \<Rightarrow> s)"

text \<open>\<open>s.split('/')\<close> and \<open>'/'.join(parts)\<close>.\<close>

fun split_slash :: "string \<Rightarrow> string list" where
  "split_slash [] = [[]]"
| "split_slash (c # cs) =
     (if c = CHR ''/'' then [] # split_slash cs
      else (case split_slash cs of
              [] \<Rightarrow> [[c]]
            | p # ps \<Rightarrow> (c # p) # ps))"

fun join_slash :: "string list \<Rightarrow> string" where
  "join_slash [] = []"
| "join_slash [p] = p"
| "join_slash (p # q # ps) = p @ ''/'' @ join_slash (q # ps)"

definition strip_prefix :: "string \<Rightarrow> string \<Rightarrow> string option" where
  "strip_prefix pre s = (if take (length pre) s = pre then Some (drop (length pre) s) else None)"

definition strip_suffix :: "string \<Rightarrow> string \<Rightarrow> string option" where
  "strip_suffix suf s =
     (if length suf \<le> length s \<and> drop (length s - length suf) s = suf
      then Some (take (length s - length suf) s) else None)"

definition endswith :: "string \<Rightarrow> string \<Rightarrow> bool" where
  "endswith s suf = (strip_suffix suf s \<noteq> None)"

section \<open>The system loader: version detection\<close>

text \<open>
  The regular expressions of \<open>SystemLoader.__init__\<close>. \<open>$\<close> also matches before a final
  newline (\<open>chomp\<close>), and \<open>.\<close> matches anything but a newline.
\<close>

definition chomp :: "string \<Rightarrow> string" where
  "chomp s = (if s \<noteq> [] \<and> last s = CHR 0x0A then butlast s else s)"

definition is_ascii_digit :: "char \<Rightarrow> bool" where
  "is_ascii_digit c = (48 \<le> (of_char c :: nat) \<and> (of_char c :: nat) \<le> 57)"

definition is_digit_or_dot :: "char \<Rightarrow> bool" where
  "is_digit_or_dot c = (is_ascii_digit c \<or> c = CHR ''.'')"

text \<open>\<open>^\{(.*)\}AUTOSAR$\<close>, giving group 1.\<close>

definition match_root_tag :: "string \<Rightarrow> string option" where
  "match_root_tag t =
     (case strip_prefix ''{'' (chomp t) of
        None \<Rightarrow> None
      | Some r \<Rightarrow>
          (case strip_suffix ''}AUTOSAR'' r of
             None \<Rightarrow> None
           | Some g \<Rightarrow> if CHR 0x0A \<in> set g then None else Some g))"

text \<open>\<open>^http://autosar\.org/schema/r(4\.[0-9.]*)$\<close>\<close>

definition match_autosar4 :: "string \<Rightarrow> string option" where
  "match_autosar4 ns =
     (case strip_prefix ''http://autosar.org/schema/r'' (chomp ns) of
        None \<Rightarrow> None
      | Some g \<Rightarrow> if take 2 g = ''4.'' \<and> list_all is_digit_or_dot (drop 2 g) then Some g else None)"

text \<open>\<open>^http://autosar\.org/(3\.[0-9.]*)$\<close>\<close>

definition match_autosar3 :: "string \<Rightarrow> string option" where
  "match_autosar3 ns =
     (case strip_prefix ''http://autosar.org/'' (chomp ns) of
        None \<Rightarrow> None
      | Some g \<Rightarrow> if take 2 g = ''3.'' \<and> list_all is_digit_or_dot (drop 2 g) then Some g else None)"

text \<open>\<open>^http://autosar\.org/([0-9.]*)\.DAI\.[0-9]$\<close>\<close>

definition match_daimler :: "string \<Rightarrow> string option" where
  "match_daimler ns =
     (case strip_prefix ''http://autosar.org/'' (chomp ns) of
        None \<Rightarrow> None
      | Some r \<Rightarrow>
          if r \<noteq> [] \<and> is_ascii_digit (last r) then
            (case strip_suffix ''.DAI.'' (butlast r) of
               None \<Rightarrow> None
             | Some g \<Rightarrow> if list_all is_digit_or_dot g then Some g else None)
          else None)"

text \<open>\<open>^([0-9]*)(\.[0-9]*)?(\.[0-9]*)?$\<close>, giving the three groups.\<close>

definition match_version :: "string \<Rightarrow> (string \<times> string option \<times> string option) option" where
  "match_version v =
     (let s = chomp v;
          g1 = takeWhile is_ascii_digit s;
          r1 = dropWhile is_ascii_digit s
      in if r1 = [] then Some (g1, None, None)
         else if hd r1 \<noteq> CHR ''.'' then None
         else
           (let g2 = CHR ''.'' # takeWhile is_ascii_digit (tl r1);
                r2 = dropWhile is_ascii_digit (tl r1)
            in if r2 = [] then Some (g1, Some g2, None)
               else if hd r2 \<noteq> CHR ''.'' then None
               else
                 (let g3 = CHR ''.'' # takeWhile is_ascii_digit (tl r2);
                      r3 = dropWhile is_ascii_digit (tl r2)
                  in if r3 = [] then Some (g1, Some g2, Some g3) else None)))"

text \<open>
  The part of \<open>SystemLoader.__init__\<close> before the reference index is built: from the root
  tag to the namespace and the version triple (major, minor, patch).
\<close>

definition detect_version :: "string \<Rightarrow> error + (string \<times> int \<times> int \<times> int)" where
  "detect_version root_tag =
     (case match_root_tag root_tag of
        None \<Rightarrow> Inl (ValueError IllegalRootTag)
      | Some xml_namespace \<Rightarrow>
          (case (case match_autosar4 xml_namespace of
                   Some g \<Rightarrow> Some g
                 | None \<Rightarrow>
                     (case match_autosar3 xml_namespace of
                        Some g \<Rightarrow> Some g
                      | None \<Rightarrow> match_daimler xml_namespace)) of
             None \<Rightarrow> Inl (ValueError UnrecognizedNamespace)
           | Some autosar_version_string \<Rightarrow>
               (case match_version autosar_version_string of
                  None \<Rightarrow> Inl (ValueError UnparsableVersion)
                | Some (g1, g2, g3) \<Rightarrow>
                    (case py_int g1 10 of
                       Inl e \<Rightarrow> Inl e
                     | Inr major \<Rightarrow>
                         (case (case g2 of None \<Rightarrow> Inr 0 | Some g \<Rightarrow> py_int (drop 1 g) 10) of
                            Inl e \<Rightarrow> Inl e
                          | Inr minor \<Rightarrow>
                              (case (case g3 of None \<Rightarrow> Inr 0 | Some g \<Rightarrow> py_int (drop 1 g) 10) of
                                 Inl e \<Rightarrow> Inl e
                               | Inr patch \<Rightarrow>
                                   if major \<noteq> 4 \<and> major \<noteq> 3
                                   then Inl (ValueError UnsupportedVersion)
                                   else Inr (xml_namespace, major, minor, patch)))))))"

text \<open>
  The loader object. Besides the attributes of the Python class it carries the two
  conversions of the Python runtime that produce non-integer numbers, \<open>float(text)\<close> and
  \<open>Decimal(text)\<close>; such numbers are modelled as rationals, rounding being left out.
\<close>

record system_loader =
  loader_root :: element
  loader_strict :: bool
  xml_namespace :: string
  autosar_version_major :: int
  autosar_version_minor :: int
  autosar_version_patch :: int
  node_to_arxml_path :: "nat list \<rightharpoonup> string"
  arxml_path_to_node :: "string \<rightharpoonup> node"
  package_default_refbase_path :: "string \<rightharpoonup> string"
  package_refbase_paths :: "string \<rightharpoonup> (string \<rightharpoonup> string)"
  py_float :: "string \<Rightarrow> rat option"
  py_decimal :: "string \<Rightarrow> rat option"

definition autosar_version_newer :: "system_loader \<Rightarrow> int \<Rightarrow> int option \<Rightarrow> int option \<Rightarrow> bool" where
  "autosar_version_newer self major minor patch =
     (if autosar_version_major self > major then True
      else if autosar_version_major self < major then False
      else
        (case minor of
           None \<Rightarrow> True
         | Some mi \<Rightarrow>
             if autosar_version_minor self > mi then True
             else if autosar_version_minor self < mi then False
             else
               (case patch of
                  None \<Rightarrow> True
                | Some pa \<Rightarrow>
                    if autosar_version_patch self > pa then True
                    else if autosar_version_patch self < pa then False
                    else True)))"

section \<open>The system loader: reference index\<close>

text \<open>
  \<open>_create_arxml_reference_dicts\<close> and its local function \<open>add_sub_references\<close>. The work
  done on one element before its children are visited is \<open>add_sub_references_elem\<close>; the
  handling of a \<open>REFERENCE-BASE\<close> element is \<open>add_reference_base\<close>.
\<close>

text \<open>\<open>elem.find('./ns:NAME').text.strip()\<close>; a missing child or text is an AttributeError.\<close>

definition find_text_strip :: "string \<Rightarrow> node \<Rightarrow> string \<Rightarrow> error + string" where
  "find_text_strip ns elem name =
     (case find_child ns elem name of
        None \<Rightarrow> Inl AttributeError
      | Some c \<Rightarrow>
          (case etext (snd c) of
             None \<Rightarrow> Inl AttributeError
           | Some t \<Rightarrow> Inr (strip t)))"

text \<open>An optional flag child: absent is false, otherwise its text is compared with "true".\<close>

definition optional_flag :: "string \<Rightarrow> node \<Rightarrow> string \<Rightarrow> error + bool" where
  "optional_flag ns elem name =
     (case find_child ns elem name of
        None \<Rightarrow> Inr False
      | Some c \<Rightarrow>
          (case etext (snd c) of
             None \<Rightarrow> Inl AttributeError
           | Some t \<Rightarrow> Inr (lower (strip t) = ''true'')))"

definition add_reference_base :: "system_loader \<Rightarrow> node \<Rightarrow> string \<Rightarrow> error + system_loader" where
  "add_reference_base self elem cur_package_path =
     (case find_text_strip (xml_namespace self) elem ''SHORT-LABEL'' of
        Inl e \<Rightarrow> Inl e
      | Inr refbase_name \<Rightarrow>
     (case find_text_strip (xml_namespace self) elem ''PACKAGE-REF'' of
        Inl e \<Rightarrow> Inl e
      | Inr refbase_path \<Rightarrow>
     (case optional_flag (xml_namespace self) elem ''IS-DEFAULT'' of
        Inl e \<Rightarrow> Inl e
      | Inr is_default \<Rightarrow>
          if is_default \<and> package_default_refbase_path self cur_package_path \<noteq> None
          then Inl (ValueError (MultipleDefaultRefbase cur_package_path))
          else
            (let self1 =
                   (if is_default
                    then self\<lparr>package_default_refbase_path :=
                           (package_default_refbase_path self)(cur_package_path \<mapsto> refbase_path)\<rparr>
                    else self)
             in case optional_flag (xml_namespace self) elem ''IS-GLOBAL'' of
                  Inl e \<Rightarrow> Inl e
                | Inr is_global \<Rightarrow>
                    if is_global then Inl (ValueError GlobalRefbase)
                    else
                      (case package_refbase_paths self1 cur_package_path of
                         None \<Rightarrow>
                           Inr (self1\<lparr>package_refbase_paths :=
                                  (package_refbase_paths self1)
                                    (cur_package_path \<mapsto> Map.empty(refbase_name \<mapsto> refbase_path))\<rparr>)
                       | Some d \<Rightarrow>
                           if d refbase_name \<noteq> None
                           then Inl (ValueError (DuplicateRefbaseName cur_package_path refbase_name))
                           else
                             Inr (self1\<lparr>package_refbase_paths :=
                                    (package_refbase_paths self1)
                                      (cur_package_path \<mapsto> d(refbase_name \<mapsto> refbase_path))\<rparr>))))))"

text \<open>
  The path registration of one element: with a \<open>SHORT-NAME\<close> child the path is extended by
  the name and registered, unless it is registered already, which is an error. Returns the
  loader, the element's path and the short name (for the package path).
\<close>

definition register_path :: "system_loader \<Rightarrow> node \<Rightarrow> string \<Rightarrow> error + (system_loader \<times> string \<times> string option)" where
  "register_path self elem elem_path0 =
     (case find_child (xml_namespace self) elem ''SHORT-NAME'' of
        None \<Rightarrow> Inr (self, elem_path0, None)
      | Some sn \<Rightarrow>
          (let short_name = etext (snd sn);
               elem_path = elem_path0 @ ''/'' @ py_str short_name
           in if arxml_path_to_node self elem_path \<noteq> None
              then Inl (ValueError (DuplicatePath elem_path))
              else Inr (self\<lparr>arxml_path_to_node := (arxml_path_to_node self)(elem_path \<mapsto> elem)\<rparr>,
                        elem_path, short_name)))"

definition add_sub_references_elem :: "system_loader \<Rightarrow> node \<Rightarrow> string \<Rightarrow> string \<Rightarrow> error + (system_loader \<times> string \<times> string)" where
  "add_sub_references_elem self elem elem_path0 cur_package_path0 =
     (case register_path self elem elem_path0 of
        Inl e \<Rightarrow> Inl e
      | Inr (self1, elem_path, short_name) \<Rightarrow>
          (let self2 = self1\<lparr>node_to_arxml_path := (node_to_arxml_path self1)(fst elem \<mapsto> elem_path)\<rparr>;
               cur_package_path =
                 (if etag (snd elem) = ns_tag (xml_namespace self) ''AR-PACKAGE''
                  then cur_package_path0 @ ''/'' @ py_str short_name
                  else cur_package_path0)
           in if etag (snd elem) = ns_tag (xml_namespace self) ''REFERENCE-BASE''
              then (case add_reference_base self2 elem cur_package_path of
                      Inl e \<Rightarrow> Inl e
                    | Inr self3 \<Rightarrow> Inr (self3, elem_path, cur_package_path))
              else Inr (self2, elem_path, cur_package_path)))"

fun add_sub_references :: "system_loader \<Rightarrow> nat list \<Rightarrow> element \<Rightarrow> string \<Rightarrow> string \<Rightarrow> error + system_loader"
  and add_sub_references_children :: "system_loader \<Rightarrow> nat list \<Rightarrow> nat \<Rightarrow> element list \<Rightarrow> string \<Rightarrow> string \<Rightarrow> error + system_loader"
where
  "add_sub_references self pos (Element t a x cs) elem_path cur_package_path =
     (case add_sub_references_elem self (pos, Element t a x cs) elem_path cur_package_path of
        Inl e \<Rightarrow> Inl e
      | Inr (self1, elem_path1, cur_package_path1) \<Rightarrow>
          add_sub_references_children self1 pos 0 cs elem_path1 cur_package_path1)"
| "add_sub_references_children self pos i [] elem_path cur_package_path = Inr self"
| "add_sub_references_children self pos i (c # cs) elem_path cur_package_path =
     (case add_sub_references self (pos @ [i]) c elem_path cur_package_path of
        Inl e \<Rightarrow> Inl e
      | Inr self1 \<Rightarrow> add_sub_references_children self1 pos (Suc i) cs elem_path cur_package_path)"

definition create_arxml_reference_dicts :: "system_loader \<Rightarrow> error + system_loader" where
  "create_arxml_reference_dicts self =
     add_sub_references
       (self\<lparr>node_to_arxml_path := Map.empty, arxml_path_to_node := Map.empty,
              package_default_refbase_path := Map.empty, package_refbase_paths := Map.empty\<rparr>)
       [] (loader_root self) [] []"

text \<open>
  \<open>SystemLoader.__init__\<close>; the last two arguments are the number conversions of the
  runtime.
\<close>

definition system_loader_init :: "element \<Rightarrow> bool \<Rightarrow> (string \<Rightarrow> rat option) \<Rightarrow> (string \<Rightarrow> rat option) \<Rightarrow> error + system_loader" where
  "system_loader_init root_element strict_flag float_fn decimal_fn =
     (case detect_version (etag root_element) of
        Inl e \<Rightarrow> Inl e
      | Inr (ns, major, minor, patch) \<Rightarrow>
          create_arxml_reference_dicts
            \<lparr>loader_root = root_element, loader_strict = strict_flag, xml_namespace = ns,
             autosar_version_major = major, autosar_version_minor = minor,
             autosar_version_patch = patch, node_to_arxml_path = Map.empty,
             arxml_path_to_node = Map.empty, package_default_refbase_path = Map.empty,
             package_refbase_paths = Map.empty, py_float = float_fn, py_decimal = decimal_fn\<rparr>)"

section \<open>The system loader: references and child location\<close>

text \<open>Sequencing of computations that may raise.\<close>

definition bind_err :: "error + 'a \<Rightarrow> ('a \<Rightarrow> error + 'b) \<Rightarrow> error + 'b" where
  "bind_err m f = (case m of Inl e \<Rightarrow> Inl e | Inr x \<Rightarrow> f x)"

text \<open>
  The reference base that the package \<open>test_path\<close> offers: its default one when the
  reference names no base, the one of that name otherwise.
\<close>

definition refbase_of_package :: "system_loader \<Rightarrow> string option \<Rightarrow> string \<Rightarrow> string option" where
  "refbase_of_package self refbase_name test_path =
     (case refbase_name of
        None \<Rightarrow> package_default_refbase_path self test_path
      | Some name \<Rightarrow>
          (case package_refbase_paths self test_path of
             None \<Rightarrow> None
           | Some d \<Rightarrow> d name))"

text \<open>
  The loop \<open>for i in range(len(base_path), 0, -1)\<close> of \<open>_follow_arxml_reference\<close>: the
  prefixes of the base path from the longest to the shortest.
\<close>

fun find_refbase :: "system_loader \<Rightarrow> string option \<Rightarrow> string list \<Rightarrow> nat \<Rightarrow> string option" where
  "find_refbase self refbase_name base_path 0 = None"
| "find_refbase self refbase_name base_path (Suc i) =
     (let test_path = join_slash (take (Suc i) base_path)
      in if (case arxml_path_to_node self test_path of
               None \<Rightarrow> False
             | Some test_node \<Rightarrow> etag (snd test_node) \<noteq> ns_tag (xml_namespace self) ''AR-PACKAGE'')
         then find_refbase self refbase_name base_path i
         else
           (case refbase_of_package self refbase_name test_path of
              None \<Rightarrow> find_refbase self refbase_name base_path i
            | Some refbase_path \<Rightarrow> Some refbase_path))"

definition follow_arxml_reference :: "system_loader \<Rightarrow> node \<Rightarrow> string option \<Rightarrow> string option \<Rightarrow> string option \<Rightarrow> error + node option" where
  "follow_arxml_reference self base_elem arxml_path0 dest_tag_name refbase_name =
     (case arxml_path0 of
        None \<Rightarrow> Inl AttributeError
      | Some arxml_path1 \<Rightarrow>
          bind_err
            (if take 1 arxml_path1 \<noteq> ''/'' then
               (case node_to_arxml_path self (fst base_elem) of
                  None \<Rightarrow> Inl KeyError
                | Some p \<Rightarrow>
                    (case find_refbase self refbase_name (split_slash p) (length (split_slash p)) of
                       None \<Rightarrow> Inl (ValueError UnknownReferenceBase)
                     | Some refbase_path \<Rightarrow> Inr (refbase_path @ ''/'' @ arxml_path1)))
             else Inr arxml_path1)
            (\<lambda>arxml_path.
               case arxml_path_to_node self arxml_path of
                 None \<Rightarrow> Inr None
               | Some result \<Rightarrow>
                   (case dest_tag_name of
                      None \<Rightarrow> Inr (Some result)
                    | Some dest \<Rightarrow>
                        if etag (snd result) \<noteq> ns_tag (xml_namespace self) dest then Inr None
                        else Inr (Some result))))"

text \<open>
  \<open>_get_arxml_children\<close>. \<open>locate_children\<close> is the loop over the children of one base
  element, \<open>locate_level\<close> the loop over the base elements for one atom of the location,
  \<open>locate_path\<close> the loop over the atoms.
\<close>

fun locate_children :: "system_loader \<Rightarrow> node \<Rightarrow> string \<Rightarrow> node list \<Rightarrow> error + node list" where
  "locate_children self base_elem child_tag_name [] = Inr []"
| "locate_children self base_elem child_tag_name (child_elem # rest) =
     (if etag (snd child_elem) = ns_tag (xml_namespace self) child_tag_name then
        (case locate_children self base_elem child_tag_name rest of
           Inl e \<Rightarrow> Inl e
         | Inr local_result \<Rightarrow> Inr (child_elem # local_result))
      else if etag (snd child_elem) = ns_tag (xml_namespace self) (child_tag_name @ ''-REF'') then
        (case follow_arxml_reference self base_elem (etext (snd child_elem))
                (map_of (eattrib (snd child_elem)) ''DEST'')
                (map_of (eattrib (snd child_elem)) ''BASE'') of
           Inl e \<Rightarrow> Inl e
         | Inr None \<Rightarrow>
             Inl (ValueError (DanglingReference
                    (child_tag_name @ ''-REF: '' @ py_str (etext (snd child_elem)))))
         | Inr (Some tmp) \<Rightarrow>
             (case locate_children self base_elem child_tag_name rest of
                Inl e \<Rightarrow> Inl e
              | Inr local_result \<Rightarrow> Inr (tmp # local_result)))
      else locate_children self base_elem child_tag_name rest)"

fun locate_level :: "system_loader \<Rightarrow> bool \<Rightarrow> string \<Rightarrow> node list \<Rightarrow> error + node list" where
  "locate_level self is_nodeset child_tag_name [] = Inr []"
| "locate_level self is_nodeset child_tag_name (base_elem # rest) =
     (case locate_children self base_elem child_tag_name (node_children base_elem) of
        Inl e \<Rightarrow> Inl e
      | Inr local_result \<Rightarrow>
          if \<not> is_nodeset \<and> length local_result > 1
          then Inl (ValueError (NonUniqueChild child_tag_name))
          else
            (case locate_level self is_nodeset child_tag_name rest of
               Inl e \<Rightarrow> Inl e
             | Inr result \<Rightarrow> Inr (local_result @ result)))"

fun locate_path :: "system_loader \<Rightarrow> node list \<Rightarrow> string list \<Rightarrow> error + node list" where
  "locate_path self base_elems [] = Inr base_elems"
| "locate_path self base_elems (child_tag_name # rest) =
     (if base_elems = [] then Inr []
      else
        (let allow_references = (CHR ''&'' \<in> set (take 2 child_tag_name));
             is_nodeset = (CHR ''*'' \<in> set (take 2 child_tag_name));
             name1 = (if allow_references then drop 1 child_tag_name else child_tag_name);
             name2 = (if is_nodeset then drop 1 name1 else name1)
         in case locate_level self is_nodeset name2 base_elems of
              Inl e \<Rightarrow> Inl e
            | Inr result \<Rightarrow> locate_path self result rest))"

definition get_arxml_children :: "system_loader \<Rightarrow> node option \<Rightarrow> string list \<Rightarrow> error + node list" where
  "get_arxml_children self base_elems children_location =
     (case base_elems of
        None \<Rightarrow> Inl (ValueError NonExistingNode)
      | Some base_elem \<Rightarrow> locate_path self [base_elem] children_location)"

definition get_unique_arxml_child :: "system_loader \<Rightarrow> node option \<Rightarrow> string list \<Rightarrow> error + node option" where
  "get_unique_arxml_child self base_elem child_location =
     bind_err (get_arxml_children self base_elem child_location)
       (\<lambda>tmp. case tmp of
                 [] \<Rightarrow> Inr None
               | [n] \<Rightarrow> Inr (Some n)
               | _ \<Rightarrow> Inl (ValueError NotUniqueNode))"

section \<open>Signals and scaling\<close>

text \<open>
  Modelled from the spec: the value types \<open>Signal\<close>, \<open>NamedSignalValue\<close>, \<open>Decimal\<close> (the
  exact companion of a signal's scaling) and \<open>Message\<close> are imported by the loader from
  modules that are not part of the sources; their fields are those of section 3 of the
  specification and of the keyword arguments the loader passes, and constructing one
  stores the arguments unchanged. A number is an integer, a float or a decimal; floats
  and decimals are rationals here.
\<close>

datatype number = PyInt int | PyFloat rat | PyDecimal rat

type_synonym comments = "(string \<times> string option) list"

record named_signal_value =
  nsv_value :: int
  nsv_name :: "string option"
  nsv_comments :: "comments option"

type_synonym choices = "(int \<times> named_signal_value) list"

datatype initial_value = InitialChoice named_signal_value | InitialNumber number | InitialBool bool

record signal_decimal =
  dec_scale :: number
  dec_offset :: number
  dec_minimum :: "number option"
  dec_maximum :: "number option"

record signal =
  sig_name :: "string option"
  sig_start :: int
  sig_length :: "int option"
  sig_receivers :: "string list"
  sig_byte_order :: string
  sig_is_signed :: bool
  sig_scale :: number
  sig_offset :: number
  sig_initial :: "initial_value option"
  sig_minimum :: "number option"
  sig_maximum :: "number option"
  sig_unit :: "string option"
  sig_choices :: "choices option"
  sig_comment :: "comments option"
  sig_is_float :: bool
  sig_decimal :: "signal_decimal option"
  sig_is_multiplexer :: bool
  sig_multiplexer_ids :: "int list option"
  sig_multiplexer_signal :: "string option"

record message =
  msg_frame_id :: int
  msg_is_extended_frame :: bool
  msg_name :: "string option"
  msg_length :: int
  msg_senders :: "string list"
  msg_cycle_time :: "int option"
  msg_signals :: "signal list"
  msg_comment :: "comments option"
  msg_strict :: bool

record internal_database =
  db_messages :: "message list"
  db_buses :: "string list"
  db_version :: "string option"

definition num_val :: "number \<Rightarrow> rat" where
  "num_val x = (case x of PyInt i \<Rightarrow> of_int i | PyFloat q \<Rightarrow> q | PyDecimal q \<Rightarrow> q)"

text \<open>\<open>a * b\<close> and \<open>a + b\<close> on integers and floats: an integer only from two integers.\<close>

definition num_mul :: "number \<Rightarrow> number \<Rightarrow> number" where
  "num_mul a b =
     (case (a, b) of
        (PyInt i, PyInt j) \<Rightarrow> PyInt (i * j)
      | _ \<Rightarrow> PyFloat (num_val a * num_val b))"

definition num_add :: "number \<Rightarrow> number \<Rightarrow> number" where
  "num_add a b =
     (case (a, b) of
        (PyInt i, PyInt j) \<Rightarrow> PyInt (i + j)
      | _ \<Rightarrow> PyFloat (num_val a + num_val b))"

text \<open>\<open>min(a, b)\<close> and \<open>max(a, b)\<close>: the second argument only when it is strictly better.\<close>

definition py_min :: "number \<Rightarrow> number \<Rightarrow> number" where
  "py_min a b = (if num_val b < num_val a then b else a)"

definition py_max :: "number \<Rightarrow> number \<Rightarrow> number" where
  "py_max a b = (if num_val b > num_val a then b else a)"

text \<open>A loop whose body may raise.\<close>

fun fold_err :: "('a \<Rightarrow> 's \<Rightarrow> error + 's) \<Rightarrow> 'a list \<Rightarrow> 's \<Rightarrow> error + 's" where
  "fold_err f [] s = Inr s"
| "fold_err f (x # xs) s = (case f x s of Inl e \<Rightarrow> Inl e | Inr s1 \<Rightarrow> fold_err f xs s1)"

text \<open>\<open>x.text\<close> of a node that may be \<open>None\<close>, and the conversions applied to a text.\<close>

definition text_of :: "node option \<Rightarrow> error + string option" where
  "text_of n = (case n of None \<Rightarrow> Inl AttributeError | Some c \<Rightarrow> Inr (etext (snd c)))"

definition parse_int_text :: "string option \<Rightarrow> error + int" where
  "parse_int_text t = (case t of None \<Rightarrow> Inl AttributeError | Some s \<Rightarrow> parse_int_string s)"

definition float_text :: "system_loader \<Rightarrow> string option \<Rightarrow> error + rat" where
  "float_text self t =
     (case t of
        None \<Rightarrow> Inl TypeError
      | Some s \<Rightarrow> (case py_float self s of None \<Rightarrow> Inl (ValueError InvalidLiteral) | Some q \<Rightarrow> Inr q))"

definition decimal_text :: "system_loader \<Rightarrow> string option \<Rightarrow> error + rat" where
  "decimal_text self t =
     (case t of
        None \<Rightarrow> Inl TypeError
      | Some s \<Rightarrow> (case py_decimal self s of None \<Rightarrow> Inl ArithmeticError | Some q \<Rightarrow> Inr q))"

definition load_comments :: "system_loader \<Rightarrow> node option \<Rightarrow> error + comments option" where
  "load_comments self n =
     bind_err (get_arxml_children self n [''DESC'', ''*L-2''])
       (\<lambda>l_2s.
          let result =
                fold (\<lambda>l_2 r.
                        AList.update
                          (case map_of (eattrib (snd l_2)) ''L'' of None \<Rightarrow> ''EN'' | Some lang \<Rightarrow> lang)
                          (etext (snd l_2)) r)
                  l_2s []
          in Inr (if result = [] then None else Some result))"

definition load_system_signal_unit :: "system_loader \<Rightarrow> node option \<Rightarrow> node option \<Rightarrow> error + string option" where
  "load_system_signal_unit self system_signal compu_method =
     bind_err (get_unique_arxml_child self system_signal
                 [''PHYSICAL-PROPS'', ''SW-DATA-DEF-PROPS-VARIANTS'',
                  ''&SW-DATA-DEF-PROPS-CONDITIONAL'', ''&UNIT'', ''DISPLAY-NAME''])
       (\<lambda>res0.
          bind_err (if res0 = None \<and> compu_method \<noteq> None
                    then get_unique_arxml_child self compu_method [''&UNIT'', ''DISPLAY-NAME'']
                    else Inr res0)
            (\<lambda>res. case res of
                      None \<Rightarrow> Inr None
                    | Some r \<Rightarrow> if etext (snd r) = Some ''NoUnit'' then Inr None else Inr (etext (snd r))))"

text \<open>The limits and the name of one \<open>COMPU-SCALE\<close>, read in the order of the source.\<close>

definition scale_limits :: "system_loader \<Rightarrow> node \<Rightarrow> error + (node option \<times> node option \<times> node option \<times> comments option)" where
  "scale_limits self compu_scale =
     bind_err (get_unique_arxml_child self (Some compu_scale) [''LOWER-LIMIT'']) (\<lambda>lower_limit.
     bind_err (get_unique_arxml_child self (Some compu_scale) [''UPPER-LIMIT'']) (\<lambda>upper_limit.
     bind_err (get_unique_arxml_child self (Some compu_scale) [''&COMPU-CONST'', ''VT'']) (\<lambda>vt.
     bind_err (load_comments self (Some compu_scale)) (\<lambda>comments.
     Inr (lower_limit, upper_limit, vt, comments)))))"

definition text_to_num :: "system_loader \<Rightarrow> bool \<Rightarrow> string option \<Rightarrow> error + number" where
  "text_to_num self is_float t =
     (if is_float then bind_err (float_text self t) (\<lambda>q. Inr (PyFloat q))
      else bind_err (parse_int_text t) (\<lambda>i. Inr (PyInt i)))"

definition merge_min :: "number option \<Rightarrow> number option \<Rightarrow> number option" where
  "merge_min minimum x =
     (case minimum of
        None \<Rightarrow> x
      | Some m \<Rightarrow> (case x of None \<Rightarrow> Some m | Some v \<Rightarrow> Some (py_min m v)))"

definition merge_max :: "number option \<Rightarrow> number option \<Rightarrow> number option" where
  "merge_max maximum x =
     (case maximum of
        None \<Rightarrow> x
      | Some m \<Rightarrow> (case x of None \<Rightarrow> Some m | Some v \<Rightarrow> Some (py_max m v)))"

text \<open>The body of the loop of \<open>_load_texttable\<close>, on (minimum, maximum, choices).\<close>

definition load_texttable_step :: "system_loader \<Rightarrow> bool \<Rightarrow> node \<Rightarrow> number option \<times> number option \<times> choices \<Rightarrow> error + (number option \<times> number option \<times> choices)" where
  "load_texttable_step self is_float compu_scale st =
     (case st of (minimum, maximum, choices) \<Rightarrow>
     bind_err (scale_limits self compu_scale) (\<lambda>(lower_limit, upper_limit, vt, comments).
     bind_err (case lower_limit of
                 None \<Rightarrow> Inr None
               | Some l \<Rightarrow> bind_err (text_to_num self is_float (etext (snd l))) (\<lambda>v. Inr (Some v)))
       (\<lambda>minimum_int_scale.
     bind_err (case upper_limit of
                 None \<Rightarrow> Inr None
               | Some u \<Rightarrow> bind_err (text_to_num self is_float (etext (snd u))) (\<lambda>v. Inr (Some v)))
       (\<lambda>maximum_int_scale.
     let minimum1 = merge_min minimum minimum_int_scale;
         maximum1 = merge_max maximum maximum_int_scale
     in case vt of
          None \<Rightarrow> Inr (minimum1, maximum1, choices)
        | Some v \<Rightarrow>
            bind_err (bind_err (text_of lower_limit) parse_int_text) (\<lambda>val.
            Inr (minimum1, maximum1,
                 AList.update val
                   \<lparr>nsv_value = val, nsv_name = etext (snd v), nsv_comments = comments\<rparr>
                   choices))))))"

definition load_texttable :: "system_loader \<Rightarrow> node option \<Rightarrow> signal_decimal \<Rightarrow> bool \<Rightarrow> error + (number option \<times> number option \<times> choices \<times> signal_decimal)" where
  "load_texttable self compu_method decimal is_float =
     bind_err (get_arxml_children self compu_method
                 [''&COMPU-INTERNAL-TO-PHYS'', ''COMPU-SCALES'', ''*&COMPU-SCALE''])
       (\<lambda>compu_scales.
     bind_err (fold_err (load_texttable_step self is_float) compu_scales (None, None, []))
       (\<lambda>(minimum, maximum, choices).
     Inr (minimum, maximum, choices,
          decimal\<lparr>dec_minimum := minimum, dec_maximum := maximum\<rparr>)))"

definition load_linear_factor_and_offset :: "system_loader \<Rightarrow> node option \<Rightarrow> signal_decimal \<Rightarrow> error + ((rat \<times> rat) option \<times> signal_decimal)" where
  "load_linear_factor_and_offset self compu_scale decimal =
     bind_err (get_unique_arxml_child self compu_scale [''&COMPU-RATIONAL-COEFFS''])
       (\<lambda>compu_rational_coeffs.
     case compu_rational_coeffs of
       None \<Rightarrow> Inr (None, decimal)
     | Some coeffs \<Rightarrow>
         bind_err (get_arxml_children self (Some coeffs) [''&COMPU-NUMERATOR'', ''*&V''])
           (\<lambda>numerators.
         if length numerators \<noteq> 2 then Inl (ValueError (NumeratorCount (length numerators)))
         else
           bind_err (get_arxml_children self (Some coeffs) [''&COMPU-DENOMINATOR'', ''*&V''])
             (\<lambda>denominators.
           if length denominators \<noteq> 1 then Inl (ValueError (DenominatorCount (length denominators)))
           else
             bind_err (decimal_text self (etext (snd (denominators ! 0)))) (\<lambda>denominator.
             bind_err (decimal_text self (etext (snd (numerators ! 1)))) (\<lambda>n1.
             if denominator = 0 then Inl ArithmeticError
             else
               bind_err (decimal_text self (etext (snd (numerators ! 0)))) (\<lambda>n0.
               Inr (Some (n1 / denominator, n0 / denominator),
                    decimal\<lparr>dec_scale := PyDecimal (n1 / denominator),
                            dec_offset := PyDecimal (n0 / denominator)\<rparr>)))))))"

definition load_linear :: "system_loader \<Rightarrow> node option \<Rightarrow> signal_decimal \<Rightarrow> bool \<Rightarrow> error + (number option \<times> number option \<times> number \<times> number \<times> signal_decimal)" where
  "load_linear self compu_method decimal is_float =
     bind_err (get_unique_arxml_child self compu_method
                 [''COMPU-INTERNAL-TO-PHYS'', ''COMPU-SCALES'', ''&COMPU-SCALE'']) (\<lambda>compu_scale.
     bind_err (get_unique_arxml_child self compu_scale [''&LOWER-LIMIT'']) (\<lambda>lower_limit.
     bind_err (get_unique_arxml_child self compu_scale [''&UPPER-LIMIT'']) (\<lambda>upper_limit.
     bind_err (case lower_limit of
                 None \<Rightarrow> Inr None
               | Some l \<Rightarrow> bind_err (parse_int_text (etext (snd l))) (\<lambda>v. Inr (Some v)))
       (\<lambda>minimum_int.
     bind_err (case upper_limit of
                 None \<Rightarrow> Inr None
               | Some u \<Rightarrow> bind_err (parse_int_text (etext (snd u))) (\<lambda>v. Inr (Some v)))
       (\<lambda>maximum_int.
     bind_err (load_linear_factor_and_offset self compu_scale decimal) (\<lambda>(fo, decimal1).
     let factor = (case fo of None \<Rightarrow> 1 | Some (fac, off) \<Rightarrow> fac);
         offset = (case fo of None \<Rightarrow> 0 | Some (fac, off) \<Rightarrow> off);
         minimum = map_option (\<lambda>m. of_int m * factor + offset) minimum_int;
         maximum = map_option (\<lambda>m. of_int m * factor + offset) maximum_int
     in Inr (map_option PyFloat minimum, map_option PyFloat maximum, PyFloat factor, PyFloat offset,
             decimal1\<lparr>dec_minimum := map_option PyDecimal minimum,
                      dec_maximum := map_option PyDecimal maximum\<rparr>)))))))"

text \<open>
  The running minimum (maximum) of \<open>_load_scale_linear_and_texttable\<close>: the first scale
  must have the limit, a later scale without it is passed over.
\<close>

definition merge_scaled :: "(number \<Rightarrow> number \<Rightarrow> number) \<Rightarrow> number option \<Rightarrow> int option \<Rightarrow> rat \<Rightarrow> rat \<Rightarrow> error + number option" where
  "merge_scaled pick current limit_int factor_scale offset_scale =
     (case current of
        None \<Rightarrow>
          (case limit_int of
             None \<Rightarrow> Inl TypeError
           | Some m \<Rightarrow> Inr (Some (PyFloat (of_int m * factor_scale + offset_scale))))
      | Some cur \<Rightarrow>
          (case limit_int of
             None \<Rightarrow> Inr (Some cur)
           | Some m \<Rightarrow> Inr (Some (pick cur (PyFloat (of_int m * factor_scale + offset_scale))))))"

record linear_texttable_state =
  lt_minimum :: "number option"
  lt_maximum :: "number option"
  lt_factor :: number
  lt_offset :: number
  lt_choices :: choices
  lt_decimal :: signal_decimal

text \<open>The body of the loop of \<open>_load_scale_linear_and_texttable\<close>.\<close>

definition load_scale_linear_and_texttable_step :: "system_loader \<Rightarrow> node \<Rightarrow> linear_texttable_state \<Rightarrow> error + linear_texttable_state" where
  "load_scale_linear_and_texttable_step self compu_scale st =
     bind_err (scale_limits self compu_scale) (\<lambda>(lower_limit, upper_limit, vt, comments).
     bind_err (case lower_limit of
                 None \<Rightarrow> Inr None
               | Some l \<Rightarrow> bind_err (parse_int_text (etext (snd l))) (\<lambda>v. Inr (Some v)))
       (\<lambda>minimum_int_scale.
     bind_err (case upper_limit of
                 None \<Rightarrow> Inr None
               | Some u \<Rightarrow> bind_err (parse_int_text (etext (snd u))) (\<lambda>v. Inr (Some v)))
       (\<lambda>maximum_int_scale.
     bind_err (load_linear_factor_and_offset self (Some compu_scale) (lt_decimal st)) (\<lambda>(fo, decimal1).
     let factor = (case fo of None \<Rightarrow> lt_factor st | Some (fac, off) \<Rightarrow> PyFloat fac);
         factor_scale = (case fo of None \<Rightarrow> 1 | Some (fac, off) \<Rightarrow> fac);
         offset = (case fo of None \<Rightarrow> lt_offset st | Some (fac, off) \<Rightarrow> PyFloat off);
         offset_scale = (case fo of None \<Rightarrow> 0 | Some (fac, off) \<Rightarrow> off)
     in
     bind_err (merge_scaled py_min (lt_minimum st) minimum_int_scale factor_scale offset_scale) (\<lambda>minimum.
     bind_err (merge_scaled py_max (lt_maximum st) maximum_int_scale factor_scale offset_scale) (\<lambda>maximum.
     bind_err (case vt of
                 None \<Rightarrow> Inr (lt_choices st)
               | Some v \<Rightarrow>
                   (case minimum_int_scale of
                      None \<Rightarrow> Inl AssertionError
                    | Some val \<Rightarrow>
                        if minimum_int_scale \<noteq> maximum_int_scale then Inl AssertionError
                        else Inr (AList.update val
                                    \<lparr>nsv_value = val, nsv_name = etext (snd v), nsv_comments = comments\<rparr>
                                    (lt_choices st))))
       (\<lambda>choices.
     Inr \<lparr>lt_minimum = minimum, lt_maximum = maximum, lt_factor = factor, lt_offset = offset,
          lt_choices = choices, lt_decimal = decimal1\<rparr>)))))))"

definition load_scale_linear_and_texttable :: "system_loader \<Rightarrow> node option \<Rightarrow> signal_decimal \<Rightarrow> bool \<Rightarrow> error + linear_texttable_state" where
  "load_scale_linear_and_texttable self compu_method decimal is_float =
     bind_err (get_arxml_children self compu_method
                 [''&COMPU-INTERNAL-TO-PHYS'', ''COMPU-SCALES'', ''*&COMPU-SCALE''])
       (\<lambda>compu_scales.
     bind_err (fold_err (load_scale_linear_and_texttable_step self) compu_scales
                 \<lparr>lt_minimum = None, lt_maximum = None, lt_factor = PyInt 1, lt_offset = PyInt 0,
                  lt_choices = [], lt_decimal = decimal\<rparr>)
       (\<lambda>st.
     case lt_minimum st of
       None \<Rightarrow> Inl TypeError
     | Some minimum \<Rightarrow>
         (case lt_maximum st of
            None \<Rightarrow> Inl TypeError
          | Some maximum \<Rightarrow>
              Inr (st\<lparr>lt_decimal := (lt_decimal st)\<lparr>dec_minimum := Some (PyDecimal (num_val minimum)),
                                                   dec_maximum := Some (PyDecimal (num_val maximum))\<rparr>\<rparr>))))"

definition get_compu_method :: "system_loader \<Rightarrow> node option \<Rightarrow> error + node option" where
  "get_compu_method self system_signal =
     (if autosar_version_newer self 4 None None
      then get_unique_arxml_child self system_signal
             [''&PHYSICAL-PROPS'', ''SW-DATA-DEF-PROPS-VARIANTS'',
              ''&SW-DATA-DEF-PROPS-CONDITIONAL'', ''&COMPU-METHOD'']
      else get_unique_arxml_child self system_signal
             [''&DATA-TYPE'', ''SW-DATA-DEF-PROPS'', ''&COMPU-METHOD''])"

record system_signal_info =
  ss_minimum :: "number option"
  ss_maximum :: "number option"
  ss_factor :: number
  ss_offset :: number
  ss_choices :: "choices option"
  ss_unit :: "string option"
  ss_comments :: "comments option"
  ss_decimal :: signal_decimal

definition load_system_signal :: "system_loader \<Rightarrow> node option \<Rightarrow> signal_decimal \<Rightarrow> bool \<Rightarrow> error + system_signal_info" where
  "load_system_signal self system_signal decimal is_float =
     bind_err (get_compu_method self system_signal) (\<lambda>compu_method.
     bind_err (load_system_signal_unit self system_signal compu_method) (\<lambda>unit.
     bind_err (load_comments self system_signal) (\<lambda>comments.
     let default_info =
           \<lparr>ss_minimum = None, ss_maximum = None, ss_factor = PyInt 1, ss_offset = PyInt 0,
            ss_choices = None, ss_unit = unit, ss_comments = comments, ss_decimal = decimal\<rparr>
     in
     case compu_method of
       None \<Rightarrow> Inr default_info
     | Some cm \<Rightarrow>
         bind_err (get_unique_arxml_child self compu_method [''CATEGORY'']) (\<lambda>category.
         case category of
           None \<Rightarrow> Inr default_info
         | Some cat \<Rightarrow>
             if etext (snd cat) = Some ''TEXTTABLE'' then
               bind_err (load_texttable self compu_method decimal is_float)
                 (\<lambda>(minimum, maximum, choices, decimal1).
                    Inr (default_info\<lparr>ss_minimum := minimum, ss_maximum := maximum,
                                     ss_choices := Some choices, ss_decimal := decimal1\<rparr>))
             else if etext (snd cat) = Some ''LINEAR'' then
               bind_err (load_linear self compu_method decimal is_float)
                 (\<lambda>(minimum, maximum, factor, offset, decimal1).
                    Inr (default_info\<lparr>ss_minimum := minimum, ss_maximum := maximum,
                                     ss_factor := factor, ss_offset := offset,
                                     ss_decimal := decimal1\<rparr>))
             else if etext (snd cat) = Some ''SCALE_LINEAR_AND_TEXTTABLE'' then
               bind_err (load_scale_linear_and_texttable self compu_method decimal is_float)
                 (\<lambda>st.
                    Inr (default_info\<lparr>ss_minimum := lt_minimum st, ss_maximum := lt_maximum st,
                                     ss_factor := lt_factor st, ss_offset := lt_offset st,
                                     ss_choices := Some (lt_choices st),
                                     ss_decimal := lt_decimal st\<rparr>))
             else Inr default_info))))"

section \<open>The system loader: signals\<close>

definition get_i_signal :: "system_loader \<Rightarrow> node option \<Rightarrow> error + node option" where
  "get_i_signal self i_signal_to_i_pdu_mapping =
     (if autosar_version_newer self 4 None None
      then get_unique_arxml_child self i_signal_to_i_pdu_mapping [''&I-SIGNAL'']
      else get_unique_arxml_child self i_signal_to_i_pdu_mapping [''&SIGNAL''])"

definition get_sw_base_type :: "system_loader \<Rightarrow> node option \<Rightarrow> error + node option" where
  "get_sw_base_type self i_signal =
     get_unique_arxml_child self i_signal
       [''&NETWORK-REPRESENTATION-PROPS'', ''SW-DATA-DEF-PROPS-VARIANTS'',
        ''&SW-DATA-DEF-PROPS-CONDITIONAL'', ''&BASE-TYPE'']"

text \<open>
  \<open>_load_signal_type\<close>, giving (is_signed, is_float). A base type without encoding makes
  the source read the undefined name \<open>bt\<close>, which is a NameError.
\<close>

definition load_signal_type :: "system_loader \<Rightarrow> node option \<Rightarrow> error + (bool \<times> bool)" where
  "load_signal_type self i_signal =
     bind_err (get_sw_base_type self i_signal) (\<lambda>base_type.
     case base_type of
       None \<Rightarrow> Inr (False, False)
     | Some bt \<Rightarrow>
         bind_err (get_unique_arxml_child self base_type [''&BASE-TYPE-ENCODING'']) (\<lambda>base_type_encoding.
         case base_type_encoding of
           None \<Rightarrow> Inl NameError
         | Some enc \<Rightarrow>
             if etext (snd enc) \<in> {Some ''2C'', Some ''1C'', Some ''SM''} then Inr (True, False)
             else if etext (snd enc) = Some ''IEEE754'' then Inr (False, True)
             else Inr (False, False)))"

definition load_signal_name :: "system_loader \<Rightarrow> node option \<Rightarrow> error + string option" where
  "load_signal_name self i_signal =
     bind_err (get_unique_arxml_child self i_signal [''SHORT-NAME'']) text_of"

definition load_signal_start_position :: "system_loader \<Rightarrow> node option \<Rightarrow> error + int" where
  "load_signal_start_position self i_signal_to_i_pdu_mapping =
     bind_err (bind_err (get_unique_arxml_child self i_signal_to_i_pdu_mapping [''START-POSITION''])
                 text_of)
       parse_int_text"

definition load_signal_length :: "system_loader \<Rightarrow> node option \<Rightarrow> node option \<Rightarrow> error + int option" where
  "load_signal_length self i_signal system_signal =
     bind_err (get_unique_arxml_child self i_signal [''LENGTH'']) (\<lambda>i_signal_length.
     case i_signal_length of
       Some l \<Rightarrow> bind_err (parse_int_text (etext (snd l))) (\<lambda>v. Inr (Some v))
     | None \<Rightarrow>
         if \<not> autosar_version_newer self 4 None None \<and> system_signal \<noteq> None then
           bind_err (get_unique_arxml_child self system_signal [''LENGTH'']) (\<lambda>system_signal_length.
           case system_signal_length of
             Some l \<Rightarrow> bind_err (parse_int_text (etext (snd l))) (\<lambda>v. Inr (Some v))
           | None \<Rightarrow> Inr None)
         else Inr None)"

definition load_signal_byte_order :: "system_loader \<Rightarrow> node option \<Rightarrow> error + string" where
  "load_signal_byte_order self i_signal_to_i_pdu_mapping =
     bind_err (get_unique_arxml_child self i_signal_to_i_pdu_mapping [''PACKING-BYTE-ORDER''])
       (\<lambda>packing_byte_order.
          case packing_byte_order of
            None \<Rightarrow> Inr ''little_endian''
          | Some p \<Rightarrow>
              if etext (snd p) = Some ''MOST-SIGNIFICANT-BYTE-FIRST'' then Inr ''big_endian''
              else Inr ''little_endian'')"

definition load_arxml_init_value_string_helper :: "system_loader \<Rightarrow> node \<Rightarrow> error + string option" where
  "load_arxml_init_value_string_helper self signal_elem =
     (if autosar_version_newer self 4 None None then
        bind_err (get_unique_arxml_child self (Some signal_elem)
                    [''INIT-VALUE'', ''NUMERICAL-VALUE-SPECIFICATION'', ''VALUE'']) (\<lambda>value_elem.
        case value_elem of
          Some v \<Rightarrow> Inr (etext (snd v))
        | None \<Rightarrow>
            bind_err (get_unique_arxml_child self (Some signal_elem)
                        [''INIT-VALUE'', ''CONSTANT-REFERENCE'', ''&CONSTANT'', ''VALUE-SPEC'',
                         ''NUMERICAL-VALUE-SPECIFICATION'', ''VALUE'']) (\<lambda>value_elem2.
            case value_elem2 of
              Some v \<Rightarrow> Inr (etext (snd v))
            | None \<Rightarrow> Inr None))
      else
        (case find_child (xml_namespace self) signal_elem ''INIT-VALUE-REF'' of
           None \<Rightarrow> Inr None
         | Some ref_elem \<Rightarrow>
             bind_err (follow_arxml_reference self signal_elem (etext (snd ref_elem))
                         (map_of (eattrib (snd ref_elem)) ''DEST'')
                         (map_of (eattrib (snd ref_elem)) ''BASE'')) (\<lambda>literal_spec.
             case literal_spec of
               None \<Rightarrow> Inr None
             | Some spec \<Rightarrow>
                 (case find_child (xml_namespace self) spec ''VALUE'' of
                    None \<Rightarrow> Inr None
                  | Some literal_value \<Rightarrow> Inr (etext (snd literal_value))))))"

definition load_arxml_init_value_string :: "system_loader \<Rightarrow> node option \<Rightarrow> node option \<Rightarrow> error + string option" where
  "load_arxml_init_value_string self i_signal system_signal =
     (if autosar_version_newer self 4 None None then
        (case i_signal of
           None \<Rightarrow> Inr None
         | Some s \<Rightarrow> load_arxml_init_value_string_helper self s)
      else
        (case system_signal of
           None \<Rightarrow> Inr None
         | Some s \<Rightarrow> load_arxml_init_value_string_helper self s))"

text \<open>The conversion of the initial value's text at the end of \<open>_load_signal\<close>.\<close>

definition convert_initial :: "system_loader \<Rightarrow> string \<Rightarrow> choices option \<Rightarrow> bool \<Rightarrow> number \<Rightarrow> number \<Rightarrow> error + initial_value" where
  "convert_initial self initial choices is_float factor offset =
     (let initial_int = (case parse_int_string initial of Inl e \<Rightarrow> None | Inr i \<Rightarrow> Some i);
          chosen = (case (choices, initial_int) of
                      (Some c, Some i) \<Rightarrow> map_of c i
                    | _ \<Rightarrow> None)
      in case chosen of
           Some v \<Rightarrow> Inr (InitialChoice v)
         | None \<Rightarrow>
             if is_float then
               bind_err (float_text self (Some initial))
                 (\<lambda>q. Inr (InitialNumber (PyFloat (q * num_val factor + num_val offset))))
             else if lower (strip initial) = ''true'' then Inr (InitialBool True)
             else if lower (strip initial) = ''false'' then Inr (InitialBool False)
             else
               (case initial_int of
                  None \<Rightarrow> Inl TypeError
                | Some i \<Rightarrow> Inr (InitialNumber (num_add (num_mul (PyInt i) factor) offset))))"

definition load_signal :: "system_loader \<Rightarrow> node \<Rightarrow> error + signal option" where
  "load_signal self i_signal_to_i_pdu_mapping =
     bind_err (get_i_signal self (Some i_signal_to_i_pdu_mapping)) (\<lambda>i_signal0.
     case i_signal0 of
       None \<Rightarrow> Inr None
     | Some _ \<Rightarrow>
     bind_err (get_unique_arxml_child self i_signal0 [''&SYSTEM-SIGNAL'']) (\<lambda>system_signal.
     if (case system_signal of
           None \<Rightarrow> False
         | Some s \<Rightarrow> etag (snd s) \<noteq> ns_tag (xml_namespace self) ''SYSTEM-SIGNAL'')
     then Inr None
     else
     let decimal = \<lparr>dec_scale = PyDecimal 1, dec_offset = PyDecimal 0,
                    dec_minimum = None, dec_maximum = None\<rparr>
     in
     bind_err (get_unique_arxml_child self (Some i_signal_to_i_pdu_mapping)
                 [if autosar_version_newer self 4 None None then ''&I-SIGNAL'' else ''&SIGNAL''])
       (\<lambda>i_signal.
     bind_err (load_signal_name self i_signal) (\<lambda>name.
     bind_err (load_signal_start_position self (Some i_signal_to_i_pdu_mapping)) (\<lambda>start_position.
     bind_err (load_signal_length self i_signal system_signal) (\<lambda>length_opt.
     bind_err (load_signal_byte_order self (Some i_signal_to_i_pdu_mapping)) (\<lambda>byte_order.
     bind_err (load_signal_type self i_signal) (\<lambda>(is_signed, is_float).
     bind_err (case system_signal of
                 None \<Rightarrow>
                   Inr \<lparr>ss_minimum = None, ss_maximum = None, ss_factor = PyInt 1,
                        ss_offset = PyInt 0, ss_choices = None, ss_unit = None,
                        ss_comments = None, ss_decimal = decimal\<rparr>
               | Some _ \<Rightarrow> load_system_signal self system_signal decimal is_float) (\<lambda>info.
     bind_err (load_arxml_init_value_string self i_signal system_signal) (\<lambda>initial_text.
     bind_err (case initial_text of
                 None \<Rightarrow> Inr None
               | Some t \<Rightarrow>
                   bind_err (convert_initial self t (ss_choices info) is_float
                               (ss_factor info) (ss_offset info))
                     (\<lambda>v. Inr (Some v))) (\<lambda>initial.
     Inr (Some
       \<lparr>sig_name = name, sig_start = start_position, sig_length = length_opt,
        sig_receivers = [], sig_byte_order = byte_order, sig_is_signed = is_signed,
        sig_scale = ss_factor info, sig_offset = ss_offset info, sig_initial = initial,
        sig_minimum = ss_minimum info, sig_maximum = ss_maximum info, sig_unit = ss_unit info,
        sig_choices = ss_choices info, sig_comment = ss_comments info, sig_is_float = is_float,
        sig_decimal = Some (ss_decimal info), sig_is_multiplexer = False,
        sig_multiplexer_ids = None, sig_multiplexer_signal = None\<rparr>))))))))))))"

definition load_pdu_signals :: "system_loader \<Rightarrow> node option \<Rightarrow> error + signal list" where
  "load_pdu_signals self pdu =
     bind_err (get_arxml_children self pdu
                 [if autosar_version_newer self 4 None None
                  then ''I-SIGNAL-TO-PDU-MAPPINGS'' else ''SIGNAL-TO-PDU-MAPPINGS'',
                  ''*&I-SIGNAL-TO-I-PDU-MAPPING'']) (\<lambda>mappings1.
     bind_err (get_arxml_children self pdu
                 [''I-SIGNAL-TO-I-PDU-MAPPINGS'', ''*&I-SIGNAL-TO-I-PDU-MAPPING'']) (\<lambda>mappings2.
     fold_err (\<lambda>i_signal_to_i_pdu_mapping signals.
                 bind_err (load_signal self i_signal_to_i_pdu_mapping)
                   (\<lambda>s. case s of None \<Rightarrow> Inr signals | Some sg \<Rightarrow> Inr (signals @ [sg])))
       (mappings1 @ mappings2) []))"

section \<open>The system loader: PDUs, messages and the load\<close>

text \<open>\<open>str(n)\<close> of an integer.\<close>

fun str_nat :: "nat \<Rightarrow> string" where
  "str_nat n = (if n < 10 then [char_of (48 + n)] else str_nat (n div 10) @ [char_of (48 + n mod 10)])"

definition str_int :: "int \<Rightarrow> string" where
  "str_int i = (if i < 0 then CHR ''-'' # str_nat (nat (- i)) else str_nat (nat i))"

text \<open>\<open>int(x)\<close> of a float: truncation towards zero.\<close>

definition trunc_int :: "rat \<Rightarrow> int" where
  "trunc_int q = (if q < 0 then \<lceil>q\<rceil> else \<lfloor>q\<rfloor>)"

text \<open>The start of \<open>_load_pdu\<close>: the bit length and the cycle time in milliseconds.\<close>

definition load_pdu_header :: "system_loader \<Rightarrow> node option \<Rightarrow> error + (int option \<times> int option)" where
  "load_pdu_header self pdu =
     bind_err (get_unique_arxml_child self pdu [''LENGTH'']) (\<lambda>bit_length_elem.
     bind_err (case bit_length_elem of
                 None \<Rightarrow> Inr None
               | Some b \<Rightarrow> bind_err (parse_int_text (etext (snd b))) (\<lambda>v. Inr (Some v)))
       (\<lambda>bit_length.
     bind_err (get_unique_arxml_child self pdu
                 (if autosar_version_newer self 4 None None
                  then [''I-PDU-TIMING-SPECIFICATIONS'', ''I-PDU-TIMING'',
                        ''TRANSMISSION-MODE-DECLARATION'', ''TRANSMISSION-MODE-TRUE-TIMING'',
                        ''CYCLIC-TIMING'', ''TIME-PERIOD'', ''VALUE'']
                  else [''I-PDU-TIMING-SPECIFICATION'', ''CYCLIC-TIMING'', ''REPEATING-TIME'',
                        ''VALUE''])) (\<lambda>time_period.
     bind_err (case time_period of
                 None \<Rightarrow> Inr None
               | Some t \<Rightarrow>
                   bind_err (float_text self (etext (snd t)))
                     (\<lambda>q. Inr (Some (trunc_int (q * 1000))))) (\<lambda>cycle_time.
     Inr (bit_length, cycle_time)))))"

definition is_multiplexed_pdu :: "system_loader \<Rightarrow> node option \<Rightarrow> bool" where
  "is_multiplexed_pdu self pdu =
     (case pdu of
        None \<Rightarrow> False
      | Some p \<Rightarrow> etag (snd p) = ns_tag (xml_namespace self) ''MULTIPLEXED-I-PDU'')"

text \<open>
  The start of \<open>_load_pdu_multiplexed_parts\<close>: the position and the length of the selector
  field, and the selector signal named after the frame and the selector index.
\<close>

definition make_selector_signal :: "system_loader \<Rightarrow> node option \<Rightarrow> string option \<Rightarrow> int \<Rightarrow> error + (int \<times> int \<times> signal)" where
  "make_selector_signal self pdu frame_name next_selector_idx =
     bind_err (bind_err (bind_err (get_unique_arxml_child self pdu [''SELECTOR-FIELD-START-POSITION''])
                           text_of) parse_int_text) (\<lambda>selector_pos.
     bind_err (bind_err (bind_err (get_unique_arxml_child self pdu [''SELECTOR-FIELD-LENGTH''])
                           text_of) parse_int_text) (\<lambda>selector_len.
     bind_err (get_unique_arxml_child self pdu [''SELECTOR-FIELD-BYTE-ORDER'']) (\<lambda>byte_order_elem.
     bind_err (case byte_order_elem of
                 None \<Rightarrow> Inr ''little_endian''
               | Some b \<Rightarrow>
                   if etext (snd b) = Some ''MOST-SIGNIFICANT-BYTE-FIRST'' then Inr ''big_endian''
                   else if etext (snd b) = Some ''MOST-SIGNIFICANT-BYTE-LAST'' then Inr ''little_endian''
                   else Inl AssertionError) (\<lambda>selector_byte_order.
     Inr (selector_pos, selector_len,
          \<lparr>sig_name = Some (py_str frame_name @ ''_selector'' @ str_int next_selector_idx),
           sig_start = selector_pos, sig_length = Some selector_len, sig_receivers = [],
           sig_byte_order = selector_byte_order, sig_is_signed = False, sig_scale = PyInt 1,
           sig_offset = PyInt 0, sig_initial = None, sig_minimum = None, sig_maximum = None,
           sig_unit = None, sig_choices = Some [], sig_comment = None, sig_is_float = False,
           sig_decimal = None, sig_is_multiplexer = True, sig_multiplexer_ids = None,
           sig_multiplexer_signal = None\<rparr>)))))"

text \<open>\<open>a.update(b)\<close> on dictionaries.\<close>

definition dict_update :: "('k \<times> 'v) list \<Rightarrow> ('k \<times> 'v) list \<Rightarrow> ('k \<times> 'v) list" where
  "dict_update a b = fold (\<lambda>(k, v). AList.update k v) b a"

text \<open>\<open>xs.remove(x)\<close> for the first element of \<open>xs\<close> that satisfies \<open>P\<close>.\<close>

fun remove_first :: "('a \<Rightarrow> bool) \<Rightarrow> 'a list \<Rightarrow> 'a list" where
  "remove_first P [] = []"
| "remove_first P (x # xs) = (if P x then xs else x # remove_first P xs)"

text \<open>The selector value and the referenced PDU of one dynamic part alternative.\<close>

definition dynalt_selector_value_and_pdu :: "system_loader \<Rightarrow> node \<Rightarrow> error + (int \<times> node option)" where
  "dynalt_selector_value_and_pdu self dynalt =
     bind_err (bind_err (bind_err (get_unique_arxml_child self (Some dynalt) [''SELECTOR-FIELD-CODE''])
                           text_of) parse_int_text) (\<lambda>dynalt_selector_value.
     bind_err (get_unique_arxml_child self (Some dynalt) [''&I-PDU'']) (\<lambda>dynalt_pdu.
     Inr (dynalt_selector_value, dynalt_pdu)))"

text \<open>
  The rest of the body of the loop over the alternatives, after the nested PDU has been
  loaded: the initial flag, the removal of the copy of the selector signal, whose choices
  go to the selector, and the tagging of the signals that no nested multiplexer has
  claimed. Returns the selector signal and the signals of the alternative.
\<close>

definition merge_dynalt :: "system_loader \<Rightarrow> node \<Rightarrow> int \<Rightarrow> int \<Rightarrow> int \<Rightarrow> signal list \<Rightarrow> signal \<Rightarrow> error + (signal \<times> signal list)" where
  "merge_dynalt self dynalt selector_pos selector_len dynalt_selector_value dynalt_signals selector_signal =
     bind_err (get_unique_arxml_child self (Some dynalt) [''INITIAL-DYNAMIC-PART'']) (\<lambda>initial_elem.
     let is_initial = (case initial_elem of None \<Rightarrow> False | Some i \<Rightarrow> etext (snd i) = Some ''true'')
     in
     if is_initial \<and> sig_initial selector_signal \<noteq> None then Inl AssertionError
     else
       (let selector1 =
              (if is_initial
               then selector_signal\<lparr>sig_initial := Some (InitialNumber (PyInt dynalt_selector_value))\<rparr>
               else selector_signal);
            dynalt_selector_signals = filter (\<lambda>x. sig_start x = selector_pos) dynalt_signals
        in
        if length dynalt_selector_signals \<noteq> 1 then Inl AssertionError
        else if sig_length (dynalt_selector_signals ! 0) \<noteq> Some selector_len then Inl AssertionError
        else
          (let selector2 =
                 (case sig_choices (dynalt_selector_signals ! 0) of
                    None \<Rightarrow> selector1
                  | Some c \<Rightarrow>
                      selector1\<lparr>sig_choices :=
                        Some (dict_update (case sig_choices selector1 of None \<Rightarrow> [] | Some sc \<Rightarrow> sc) c)\<rparr>);
               remaining = remove_first (\<lambda>x. sig_start x = selector_pos) dynalt_signals;
               claimed =
                 map (\<lambda>sg. if sig_multiplexer_signal sg = None
                           then sg\<lparr>sig_multiplexer_signal := sig_name selector2,
                                   sig_multiplexer_ids := Some [dynalt_selector_value]\<rparr>
                           else sg) remaining
           in Inr (selector2, claimed))))"

definition dynpart_spec :: "system_loader \<Rightarrow> string list" where
  "dynpart_spec self =
     (if autosar_version_newer self 4 None None
      then [''DYNAMIC-PARTS'', ''*DYNAMIC-PART'', ''DYNAMIC-PART-ALTERNATIVES'',
            ''*DYNAMIC-PART-ALTERNATIVE'']
      else [''DYNAMIC-PART'', ''DYNAMIC-PART-ALTERNATIVES'', ''*DYNAMIC-PART-ALTERNATIVE''])"

definition static_pdus_spec :: "system_loader \<Rightarrow> string list" where
  "static_pdus_spec self =
     (if autosar_version_newer self 4 None None
      then [''STATIC-PARTS'', ''*STATIC-PART'', ''&I-PDU'']
      else [''STATIC-PART'', ''&I-PDU''])"

text \<open>
  \<open>_load_pdu\<close> and \<open>_load_pdu_multiplexed_parts\<close>, with the two loops of the latter. A
  multiplexed PDU may refer to itself through its parts, and then the recursion ends
  with Python's RecursionError; the first argument bounds the depth of the recursion.
  \<open>_load_pdu\<close> returns (next_selector_idx, bit_length, signals, cycle_time).
\<close>

function (sequential) load_pdu :: "nat \<Rightarrow> system_loader \<Rightarrow> node option \<Rightarrow> string option \<Rightarrow> int \<Rightarrow> error + (int \<times> int option \<times> signal list \<times> int option)"
  and load_pdu_multiplexed_parts :: "nat \<Rightarrow> system_loader \<Rightarrow> node option \<Rightarrow> string option \<Rightarrow> int \<Rightarrow> error + signal list"
  and load_dynamic_alternatives :: "nat \<Rightarrow> system_loader \<Rightarrow> string option \<Rightarrow> int \<Rightarrow> int \<Rightarrow> node list \<Rightarrow> int \<times> signal \<times> signal list \<Rightarrow> error + (int \<times> signal \<times> signal list)"
  and load_static_parts :: "nat \<Rightarrow> system_loader \<Rightarrow> string option \<Rightarrow> node list \<Rightarrow> int \<times> signal list \<Rightarrow> error + (int \<times> signal list)"
where
  "load_pdu 0 self pdu frame_name next_selector_idx = Inl RecursionError"
| "load_pdu (Suc depth) self pdu frame_name next_selector_idx =
     (case load_pdu_header self pdu of
        Inl e \<Rightarrow> Inl e
      | Inr (bit_length, cycle_time) \<Rightarrow>
          (case load_pdu_signals self pdu of
             Inl e \<Rightarrow> Inl e
           | Inr signals \<Rightarrow>
               if is_multiplexed_pdu self pdu then
                 (case load_pdu_multiplexed_parts depth self pdu frame_name next_selector_idx of
                    Inl e \<Rightarrow> Inl e
                  | Inr mux_signals \<Rightarrow>
                      Inr (next_selector_idx, bit_length, signals @ mux_signals, cycle_time))
               else Inr (next_selector_idx, bit_length, signals, cycle_time)))"
| "load_pdu_multiplexed_parts depth self pdu frame_name next_selector_idx =
     (case make_selector_signal self pdu frame_name next_selector_idx of
        Inl e \<Rightarrow> Inl e
      | Inr (selector_pos, selector_len, selector_signal) \<Rightarrow>
          (case get_arxml_children self pdu (dynpart_spec self) of
             Inl e \<Rightarrow> Inl e
           | Inr dynalts \<Rightarrow>
               (case load_dynamic_alternatives depth self frame_name selector_pos selector_len dynalts
                       (next_selector_idx + 1, selector_signal, []) of
                  Inl e \<Rightarrow> Inl e
                | Inr (idx1, selector1, dynamic_signals) \<Rightarrow>
                    (case get_arxml_children self pdu (static_pdus_spec self) of
                       Inl e \<Rightarrow> Inl e
                     | Inr static_pdus \<Rightarrow>
                         (case load_static_parts depth self frame_name static_pdus (idx1, []) of
                            Inl e \<Rightarrow> Inl e
                          | Inr (idx2, static_signals) \<Rightarrow>
                              Inr (selector1 # dynamic_signals @ static_signals))))))"
| "load_dynamic_alternatives depth self frame_name selector_pos selector_len [] st = Inr st"
| "load_dynamic_alternatives depth self frame_name selector_pos selector_len (dynalt # rest)
       (next_selector_idx, selector_signal, signals) =
     (case dynalt_selector_value_and_pdu self dynalt of
        Inl e \<Rightarrow> Inl e
      | Inr (dynalt_selector_value, dynalt_pdu) \<Rightarrow>
          (case load_pdu depth self dynalt_pdu frame_name next_selector_idx of
             Inl e \<Rightarrow> Inl e
           | Inr (idx1, dynalt_bit_length, dynalt_signals, dynalt_cycle_time) \<Rightarrow>
               (case merge_dynalt self dynalt selector_pos selector_len dynalt_selector_value
                       dynalt_signals selector_signal of
                  Inl e \<Rightarrow> Inl e
                | Inr (selector1, claimed) \<Rightarrow>
                    load_dynamic_alternatives depth self frame_name selector_pos selector_len rest
                      (idx1, selector1, signals @ claimed))))"
| "load_static_parts depth self frame_name [] st = Inr st"
| "load_static_parts depth self frame_name (static_pdu # rest) (next_selector_idx, signals) =
     (case load_pdu depth self (Some static_pdu) frame_name next_selector_idx of
        Inl e \<Rightarrow> Inl e
      | Inr (idx1, bit_length, static_signals, cycle_time) \<Rightarrow>
          load_static_parts depth self frame_name rest (idx1, signals @ static_signals))"
  by pat_completeness auto
termination
  by (relation "measures [
        (\<lambda>x. case x of
           Inl (Inl (d, _)) \<Rightarrow> 3 * d
         | Inl (Inr (d, _)) \<Rightarrow> 3 * d + 2
         | Inr (Inl (d, _)) \<Rightarrow> 3 * d + 1
         | Inr (Inr (d, _)) \<Rightarrow> 3 * d + 1),
        (\<lambda>x. case x of
           Inl _ \<Rightarrow> 0
         | Inr (Inl (d, self, fn, sp, sl, xs, st)) \<Rightarrow> length xs
         | Inr (Inr (d, self, fn, xs, st)) \<Rightarrow> length xs)]") auto

definition get_can_frame :: "system_loader \<Rightarrow> node option \<Rightarrow> error + node option" where
  "get_can_frame self can_frame_triggering =
     get_unique_arxml_child self can_frame_triggering [''&FRAME'']"

definition get_pdu :: "system_loader \<Rightarrow> node option \<Rightarrow> error + node option" where
  "get_pdu self can_frame =
     get_unique_arxml_child self can_frame
       [''PDU-TO-FRAME-MAPPINGS'', ''&PDU-TO-FRAME-MAPPING'', ''&PDU'']"

definition load_message_name :: "system_loader \<Rightarrow> node option \<Rightarrow> error + string option" where
  "load_message_name self can_frame =
     bind_err (get_unique_arxml_child self can_frame [''SHORT-NAME'']) text_of"

definition load_message_frame_id :: "system_loader \<Rightarrow> node option \<Rightarrow> error + int" where
  "load_message_frame_id self can_frame_triggering =
     bind_err (bind_err (get_unique_arxml_child self can_frame_triggering [''IDENTIFIER'']) text_of)
       parse_int_text"

definition load_message_length :: "system_loader \<Rightarrow> node option \<Rightarrow> error + int" where
  "load_message_length self can_frame =
     bind_err (bind_err (get_unique_arxml_child self can_frame [''FRAME-LENGTH'']) text_of)
       parse_int_text"

definition load_message_is_extended_frame :: "system_loader \<Rightarrow> node option \<Rightarrow> error + bool" where
  "load_message_is_extended_frame self can_frame_triggering =
     bind_err (get_unique_arxml_child self can_frame_triggering [''CAN-ADDRESSING-MODE''])
       (\<lambda>can_addressing_mode.
          case can_addressing_mode of
            None \<Rightarrow> Inr False
          | Some m \<Rightarrow> Inr (etext (snd m) = Some ''EXTENDED''))"

text \<open>\<open>_load_message\<close>; the first argument bounds the recursion of \<open>_load_pdu\<close>.\<close>

definition load_message :: "nat \<Rightarrow> system_loader \<Rightarrow> node \<Rightarrow> error + message" where
  "load_message depth self can_frame_triggering =
     bind_err (get_can_frame self (Some can_frame_triggering)) (\<lambda>can_frame.
     bind_err (load_message_name self can_frame) (\<lambda>name.
     bind_err (load_message_frame_id self (Some can_frame_triggering)) (\<lambda>frame_id.
     bind_err (load_message_length self can_frame) (\<lambda>frame_length.
     bind_err (load_message_is_extended_frame self (Some can_frame_triggering)) (\<lambda>is_extended_frame.
     bind_err (load_comments self can_frame) (\<lambda>comments.
     bind_err (get_pdu self can_frame) (\<lambda>pdu.
     if pdu = None then Inl AssertionError
     else
       bind_err (load_pdu depth self pdu name 1) (\<lambda>(idx, bit_length, signals, cycle_time).
       Inr \<lparr>msg_frame_id = frame_id, msg_is_extended_frame = is_extended_frame, msg_name = name,
            msg_length = frame_length, msg_senders = [], msg_cycle_time = cycle_time,
            msg_signals = signals, msg_comment = comments,
            msg_strict = loader_strict self\<rparr>))))))))"

definition frame_triggerings_spec :: "system_loader \<Rightarrow> string list" where
  "frame_triggerings_spec self =
     (if autosar_version_newer self 4 None None
      then [''ELEMENTS'', ''*&CAN-CLUSTER'', ''CAN-CLUSTER-VARIANTS'',
            ''*&CAN-CLUSTER-CONDITIONAL'', ''PHYSICAL-CHANNELS'', ''*&CAN-PHYSICAL-CHANNEL'',
            ''FRAME-TRIGGERINGS'', ''*&CAN-FRAME-TRIGGERING'']
      else [''ELEMENTS'', ''*&CAN-CLUSTER'', ''PHYSICAL-CHANNELS'', ''*&PHYSICAL-CHANNEL'',
            ''FRAME-TRIGGERINGSS'', ''*&CAN-FRAME-TRIGGERING''])"

text \<open>\<open>_load_package_contents\<close>: the messages so far, extended by those of the package.\<close>

definition load_package_contents :: "nat \<Rightarrow> system_loader \<Rightarrow> node \<Rightarrow> message list \<Rightarrow> error + message list" where
  "load_package_contents depth self package_elem messages =
     bind_err (get_arxml_children self (Some package_elem) (frame_triggerings_spec self))
       (\<lambda>can_frame_triggerings.
          fold_err (\<lambda>can_frame_triggering msgs.
                      bind_err (load_message depth self can_frame_triggering)
                        (\<lambda>m. Inr (msgs @ [m])))
            can_frame_triggerings messages)"

definition sub_packages_tag :: "system_loader \<Rightarrow> string" where
  "sub_packages_tag self =
     (if autosar_version_newer self 4 None None then ''AR-PACKAGES'' else ''SUB-PACKAGES'')"

text \<open>
  The local function \<open>handle_package_list\<close> of \<open>load\<close>, on the package list at position
  \<open>pos\<close>: \<open>handle_packages\<close> is its loop over the \<open>AR-PACKAGE\<close> children, and
  \<open>handle_sub_packages\<close> looks for the first child of a package that is a list of
  sub-packages, as \<open>package.find\<close> does, and handles it.
\<close>

function (sequential) handle_package_list :: "nat \<Rightarrow> system_loader \<Rightarrow> nat list \<Rightarrow> element \<Rightarrow> message list \<Rightarrow> error + message list"
  and handle_packages :: "nat \<Rightarrow> system_loader \<Rightarrow> nat list \<Rightarrow> nat \<Rightarrow> element list \<Rightarrow> message list \<Rightarrow> error + message list"
  and handle_sub_packages :: "nat \<Rightarrow> system_loader \<Rightarrow> nat list \<Rightarrow> nat \<Rightarrow> element list \<Rightarrow> message list \<Rightarrow> error + message list"
where
  "handle_package_list depth self pos (Element t a x cs) messages =
     handle_packages depth self pos 0 cs messages"
| "handle_packages depth self pos i [] messages = Inr messages"
| "handle_packages depth self pos i (Element t a x cs # rest) messages =
     (if t = ns_tag (xml_namespace self) ''AR-PACKAGE'' then
        (case load_package_contents depth self (pos @ [i], Element t a x cs) messages of
           Inl e \<Rightarrow> Inl e
         | Inr messages1 \<Rightarrow>
             (case handle_sub_packages depth self (pos @ [i]) 0 cs messages1 of
                Inl e \<Rightarrow> Inl e
              | Inr messages2 \<Rightarrow> handle_packages depth self pos (Suc i) rest messages2))
      else handle_packages depth self pos (Suc i) rest messages)"
| "handle_sub_packages depth self pos j [] messages = Inr messages"
| "handle_sub_packages depth self pos j (s # ss) messages =
     (if etag s = ns_tag (xml_namespace self) (sub_packages_tag self)
      then handle_package_list depth self (pos @ [j]) s messages
      else handle_sub_packages depth self pos (Suc j) ss messages)"
  by pat_completeness auto
termination
  by (relation "measure
        (\<lambda>x. case x of
           Inl (d, self, pos, e, m) \<Rightarrow> size e
         | Inr (Inl (d, self, pos, i, cs, m)) \<Rightarrow> size_list size cs
         | Inr (Inr (d, self, pos, j, ss, m)) \<Rightarrow> size_list size ss)") auto

text \<open>\<open>SystemLoader.load\<close>.\<close>

definition load :: "nat \<Rightarrow> system_loader \<Rightarrow> error + internal_database" where
  "load depth self =
     (case find_child (xml_namespace self) ([], loader_root self)
             (if autosar_version_newer self 4 None None then ''AR-PACKAGES''
              else ''TOP-LEVEL-PACKAGES'') of
        None \<Rightarrow> Inl AttributeError
      | Some package_list \<Rightarrow>
          bind_err (handle_package_list depth self (fst package_list) (snd package_list) [])
            (\<lambda>messages. Inr \<lparr>db_messages = messages, db_buses = [], db_version = None\<rparr>))"

text \<open>
  The path that the indexing traversal computes for an element, as a function of the
  document alone: an element with a \<open>SHORT-NAME\<close> child extends the path of its parent
  by \<open>/\<close> and the name, any other element inherits the parent's path. \<open>path_at\<close> follows
  child indices from an element and gives the path and the element found there;
  \<open>has_tag\<close> tells whether a tag occurs in a subtree.
\<close>

definition short_name_text :: "string \<Rightarrow> element \<Rightarrow> string option option" where
  "short_name_text ns e =
     map_option etext (List.find (\<lambda>c. etag c = ns_tag ns ''SHORT-NAME'') (echildren e))"

definition own_path :: "string \<Rightarrow> string \<Rightarrow> element \<Rightarrow> string" where
  "own_path ns parent_path e =
     (case short_name_text ns e of
        None \<Rightarrow> parent_path
      | Some t \<Rightarrow> parent_path @ ''/'' @ py_str t)"

fun path_at :: "string \<Rightarrow> string \<Rightarrow> element \<Rightarrow> nat list \<Rightarrow> (string \<times> element) option" where
  "path_at ns parent_path e [] = Some (own_path ns parent_path e, e)"
| "path_at ns parent_path e (i # r) =
     (if i < length (echildren e)
      then path_at ns (own_path ns parent_path e) (echildren e ! i) r
      else None)"

fun has_tag :: "string \<Rightarrow> element \<Rightarrow> bool" where
  "has_tag t (Element t1 a x cs) = (t1 = t \<or> list_ex (has_tag t) cs)"

section \<open>Invariants and example documents\<close>

text \<open>The invariant of the indexing traversal: every registered path leads back to itself.\<close>

definition index_inv :: "system_loader \<Rightarrow> bool" where
  "index_inv self \<longleftrightarrow>
     (\<forall>p n. arxml_path_to_node self p = Some n \<longrightarrow> node_to_arxml_path self (fst n) = Some p)"

text \<open>Elements of an AUTOSAR 4 document, and a small document with one package.\<close>

definition example_ns :: string where "example_ns = ''http://autosar.org/schema/r4.0''"

definition xml_node :: "string \<Rightarrow> element list \<Rightarrow> element" where "xml_node name cs = Element (ns_tag example_ns name) [] None cs"

definition xml_leaf :: "string \<Rightarrow> string \<Rightarrow> element" where "xml_leaf name t = Element (ns_tag example_ns name) [] (Some t) []"

definition example_doc :: element where
  "example_doc = xml_node ''AUTOSAR'' [xml_node ''AR-PACKAGES'' [xml_node ''AR-PACKAGE'' [xml_leaf ''SHORT-NAME'' ''P'', xml_node ''ELEMENTS'' [xml_node ''X'' [xml_leaf ''SHORT-NAME'' ''A''], xml_node ''X'' [xml_leaf ''SHORT-NAME'' ''B'']]]]]"

text \<open>The same document with the second element named as the first.\<close>

definition duplicate_doc :: element where
  "duplicate_doc = xml_node ''AUTOSAR'' [xml_node ''AR-PACKAGES'' [xml_node ''AR-PACKAGE'' [xml_leaf ''SHORT-NAME'' ''P'', xml_node ''ELEMENTS'' [xml_node ''X'' [xml_leaf ''SHORT-NAME'' ''A''], xml_node ''X'' [xml_leaf ''SHORT-NAME'' ''A'']]]]]"

text \<open>
  A document with nested multiplexers: the multiplexed PDU \<open>M\<close> (selector at bit 0) has
  two alternatives, the multiplexed PDUs \<open>Q1\<close> and \<open>Q2\<close> (selector at bit 8); each of them
  has as its static part the multiplexed PDU \<open>R\<close> (selector at bit 0), whose selector
  signal is the copy of the selector of \<open>M\<close> that every alternative has to contain. The
  first alternative is flagged as the initial one.
\<close>

definition xml_ref :: "string \<Rightarrow> string \<Rightarrow> string \<Rightarrow> element" where
  "xml_ref name dest path = Element (ns_tag example_ns (name @ ''-REF'')) [(''DEST'', dest)] (Some path) []"

definition mux_pdu :: "string \<Rightarrow> string \<Rightarrow> element list \<Rightarrow> element" where
  "mux_pdu name pos parts =
     xml_node ''MULTIPLEXED-I-PDU''
       ([xml_leaf ''SHORT-NAME'' name, xml_leaf ''SELECTOR-FIELD-START-POSITION'' pos,
         xml_leaf ''SELECTOR-FIELD-LENGTH'' ''2''] @ parts)"

definition dynamic_alternative :: "string \<Rightarrow> string \<Rightarrow> element list \<Rightarrow> element" where
  "dynamic_alternative code path flags =
     xml_node ''DYNAMIC-PART-ALTERNATIVE''
       ([xml_leaf ''SELECTOR-FIELD-CODE'' code, xml_ref ''I-PDU'' ''MULTIPLEXED-I-PDU'' path] @ flags)"

definition dynamic_parts :: "element list \<Rightarrow> element" where
  "dynamic_parts alternatives =
     xml_node ''DYNAMIC-PARTS'' [xml_node ''DYNAMIC-PART''
       [xml_node ''DYNAMIC-PART-ALTERNATIVES'' alternatives]]"

definition static_part :: "string \<Rightarrow> element" where
  "static_part path =
     xml_node ''STATIC-PARTS'' [xml_node ''STATIC-PART'' [xml_ref ''I-PDU'' ''MULTIPLEXED-I-PDU'' path]]"

definition package_doc :: "element list \<Rightarrow> element" where
  "package_doc elements =
     xml_node ''AUTOSAR'' [xml_node ''AR-PACKAGES'' [xml_node ''AR-PACKAGE''
       [xml_leaf ''SHORT-NAME'' ''P'', xml_node ''ELEMENTS'' elements]]]"

definition nested_doc :: element where
  "nested_doc =
     package_doc
       [mux_pdu ''M'' ''0''
          [dynamic_parts
             [dynamic_alternative ''0'' ''/P/Q1'' [xml_leaf ''INITIAL-DYNAMIC-PART'' ''true''],
              dynamic_alternative ''1'' ''/P/Q2'' []]],
        mux_pdu ''Q1'' ''8'' [static_part ''/P/R''],
        mux_pdu ''Q2'' ''8'' [static_part ''/P/R''],
        mux_pdu ''R'' ''0'' []]"

section \<open>Properties\<close>

subsection \<open>Integer literals\<close>

lemma dropWhile_all: "(\<forall>c\<in>set s. P c) \<Longrightarrow> dropWhile P s = []"
  by (induction s) auto

lemma strip_blank: "(\<forall>c\<in>set s. py_isspace c) \<Longrightarrow> strip s = []"
  by (simp add: strip_def dropWhile_all)

lemma scan_digits_clean:
  "(\<forall>c\<in>set ds. is_digit_below b c) \<Longrightarrow> (ds = [] \<longrightarrow> prev \<noteq> CHR ''_'') \<Longrightarrow>
   scan_digits b prev acc n ds = Some (foldl (\<lambda>a c. a * b + digit_value c) acc ds, n + length ds, [])"
proof (induction ds arbitrary: prev acc n)
  case Nil
  then show ?case by simp
next
  case (Cons c cs)
  then show ?case by (auto simp: is_digit_below_def)
qed

lemma digit_ascii: "digit_value c < 37 \<Longrightarrow> (of_char c :: nat) < 128"
  by (auto simp: digit_value_def Let_def split: if_splits)

lemma digit_to_ascii: "is_digit_below b c \<Longrightarrow> b \<le> 36 \<Longrightarrow> to_ascii c = c"
  using digit_ascii [of c] by (simp add: is_digit_below_def to_ascii_def)

lemma digits_to_ascii: "(\<forall>c\<in>set ds. is_digit_below b c) \<Longrightarrow> b \<le> 36 \<Longrightarrow> map to_ascii ds = ds"
  by (induction ds) (auto simp: digit_to_ascii)

lemma digit_not_space: "digit_value c < 37 \<Longrightarrow> \<not> c_isspace c"
  by (auto simp: digit_value_def c_isspace_def Let_def split: if_splits)

lemma digit_not_sign: "digit_value c < 37 \<Longrightarrow> c \<noteq> CHR ''+'' \<and> c \<noteq> CHR ''-''"
  by (auto simp: digit_value_def)

lemma digits_head:
  assumes "ds \<noteq> []" "\<forall>c\<in>set ds. is_digit_below b c" "b \<le> 36"
  shows "dropWhile c_isspace (map to_ascii ds) = ds" "split_sign ds = (False, ds)"
proof -
  obtain c cs where ds: "ds = c # cs" using assms(1) by (cases ds) auto
  have c: "digit_value c < 37" using assms(2,3) by (simp add: ds is_digit_below_def)
  show "dropWhile c_isspace (map to_ascii ds) = ds"
    using digits_to_ascii [OF assms(2,3)] digit_not_space [OF c] by (simp add: ds)
  show "split_sign ds = (False, ds)"
    using digit_not_sign [OF c] by (simp add: ds split_sign_def)
qed

lemma skip_prefix_digits:
  assumes "\<forall>c\<in>set ds. is_digit_below b c"
  shows "skip_prefix b ds = ds"
proof (cases "drop 1 ds")
  case Nil
  then show ?thesis by (simp add: skip_prefix_def)
next
  case (Cons c cs)
  then have "c \<in> set ds" by (metis in_set_dropD list.set_intros(1))
  then have "digit_value c < b" using assms by (simp add: is_digit_below_def)
  then show ?thesis using Cons
    by (auto simp: skip_prefix_def digit_value_def)
qed

lemma py_int_digits:
  assumes "ds \<noteq> []" "\<forall>c\<in>set ds. is_digit_below b c" "b \<noteq> 0" "b \<le> 36"
  shows "py_int ds b = Inr (int (digits_value b ds))"
proof -
  have t: "take 1 ds \<noteq> ''_''" using assms(1,2) by (cases ds) (auto simp: is_digit_below_def)
  have sc: "scan_digits b (CHR 0x00) 0 0 ds = Some (digits_value b ds, length ds, [])"
    using scan_digits_clean [OF assms(2), of "CHR 0x00" 0 0] assms(1) by (simp add: digits_value_def)
  show ?thesis
    using assms(1,3) t sc
    by (simp add: py_int_def digits_head [OF assms(1,2,4)] detect_base_def
        skip_prefix_digits [OF assms(2)])
qed

lemma digits_value_zero: "digits_value b (CHR ''0'' # ds) = digits_value b ds"
  by (simp add: digits_value_def digit_value_def)

lemma py_int_prefixed:
  assumes "ds \<noteq> []" "\<forall>c\<in>set ds. is_digit_below b c"
    and "(b = 16 \<and> p = CHR ''x'') \<or> (b = 8 \<and> p = CHR ''o'') \<or> (b = 2 \<and> p = CHR ''b'')"
  shows "py_int (CHR ''0'' # p # ds) 0 = Inr (int (digits_value b ds))"
proof -
  have b: "b \<le> 36" using assms(3) by auto
  have t: "take 1 ds \<noteq> ''_''" using assms(1,2) by (cases ds) (auto simp: is_digit_below_def)
  have sc: "scan_digits b (CHR 0x00) 0 0 ds = Some (digits_value b ds, length ds, [])"
    using scan_digits_clean [OF assms(2), of "CHR 0x00" 0 0] assms(1) by (simp add: digits_value_def)
  have m: "map to_ascii ds = ds" using digits_to_ascii [OF assms(2) b] .
  have p: "p = CHR ''x'' \<or> p = CHR ''o'' \<or> p = CHR ''b''" using assms(3) by blast
  have h1: "dropWhile c_isspace (map to_ascii (CHR ''0'' # p # ds)) = CHR ''0'' # p # ds"
    using p m by (auto simp: to_ascii_def c_isspace_def)
  have h2: "split_sign (CHR ''0'' # p # ds) = (False, CHR ''0'' # p # ds)"
    by (simp add: split_sign_def)
  have h3: "detect_base 0 (CHR ''0'' # p # ds) = (b, False)"
    using assms(3) by (auto simp: detect_base_def)
  have h4: "skip_prefix b (CHR ''0'' # p # ds) = ds"
    using assms(3) t by (cases ds) (auto simp: skip_prefix_def)
  show ?thesis
    unfolding py_int_def h1 h2 using assms(1) t sc by (simp add: h3 h4)
qed

lemma py_int_decimal:
  assumes "ds \<noteq> []" "\<forall>c\<in>set ds. is_digit_below 10 c" "hd ds \<noteq> CHR ''0''"
  shows "py_int ds 0 = Inr (int (digits_value 10 ds))"
proof -
  have t: "take 1 ds \<noteq> ''_''" "take 1 ds \<noteq> ''0''"
    using assms by (cases ds; auto simp: is_digit_below_def)+
  have sc: "scan_digits 10 (CHR 0x00) 0 0 ds = Some (digits_value 10 ds, length ds, [])"
    using scan_digits_clean [OF assms(2), of "CHR 0x00" 0 0] assms(1) by (simp add: digits_value_def)
  show ?thesis
    using assms(1) t sc
    by (simp add: py_int_def digits_head [OF assms(1,2)] detect_base_def
        skip_prefix_digits [OF assms(2)])
qed

text \<open>
  C10. \<open>parse_int_string\<close> returns 0 for an empty or white-space-only string; a string that,
  stripped, starts with a zero followed by a digit is read in base 8 (and has the octal
  value of its digits when they are octal digits); any other non-empty string is read
  with the base detected from its prefix: \<open>0x\<close> is hexadecimal, \<open>0o\<close> octal, and digits
  without a leading zero are decimal.
\<close>

theorem parse_int_string_cases:
  "((\<forall>c\<in>set s. py_isspace c) \<longrightarrow> parse_int_string s = Inr 0) \<and>
   (\<forall>d r. strip s = CHR ''0'' # d # r \<and> py_isdigit d \<longrightarrow>
      parse_int_string s = py_int (strip s) 8) \<and>
   (\<forall>ds. strip s = CHR ''0'' # ds \<and> ds \<noteq> [] \<and> (\<forall>c\<in>set ds. is_digit_below 8 c) \<longrightarrow>
      parse_int_string s = Inr (int (digits_value 8 ds))) \<and>
   (strip s \<noteq> [] \<and> \<not> (\<exists>d r. strip s = CHR ''0'' # d # r \<and> py_isdigit d) \<longrightarrow>
      parse_int_string s = py_int (strip s) 0) \<and>
   (\<forall>ds. strip s = ''0x'' @ ds \<and> ds \<noteq> [] \<and> (\<forall>c\<in>set ds. is_digit_below 16 c) \<longrightarrow>
      parse_int_string s = Inr (int (digits_value 16 ds))) \<and>
   (\<forall>ds. strip s = ''0o'' @ ds \<and> ds \<noteq> [] \<and> (\<forall>c\<in>set ds. is_digit_below 8 c) \<longrightarrow>
      parse_int_string s = Inr (int (digits_value 8 ds))) \<and>
   (strip s \<noteq> [] \<and> hd (strip s) \<noteq> CHR ''0'' \<and> (\<forall>c\<in>set (strip s). is_digit_below 10 c) \<longrightarrow>
      parse_int_string s = Inr (int (digits_value 10 (strip s))))"
proof (intro conjI allI impI)
  assume "\<forall>c\<in>set s. py_isspace c"
  then show "parse_int_string s = Inr 0"
    by (simp add: parse_int_string_def strip_blank)
next
  fix d r assume "strip s = CHR ''0'' # d # r \<and> py_isdigit d"
  then show "parse_int_string s = py_int (strip s) 8"
    by (simp add: parse_int_string_def)
next
  fix ds assume h: "strip s = CHR ''0'' # ds \<and> ds \<noteq> [] \<and> (\<forall>c\<in>set ds. is_digit_below 8 c)"
  then obtain d r where ds: "ds = d # r" by (cases ds) auto
  have d: "py_isdigit d" using h
    by (auto simp: ds is_digit_below_def digit_value_def py_isdigit_def Let_def split: if_splits)
  have all: "\<forall>c\<in>set (CHR ''0'' # ds). is_digit_below 8 c"
    using h by (simp add: is_digit_below_def digit_value_def)
  have "py_int (CHR ''0'' # ds) 8 = Inr (int (digits_value 8 (CHR ''0'' # ds)))"
    by (rule py_int_digits [OF _ all]) simp_all
  then show "parse_int_string s = Inr (int (digits_value 8 ds))"
    using h d by (simp add: parse_int_string_def ds digits_value_zero)
next
  assume "strip s \<noteq> [] \<and> \<not> (\<exists>d r. strip s = CHR ''0'' # d # r \<and> py_isdigit d)"
  then show "parse_int_string s = py_int (strip s) 0"
    by (cases "strip s"; cases "tl (strip s)") (auto simp: parse_int_string_def)
next
  fix ds assume h: "strip s = ''0x'' @ ds \<and> ds \<noteq> [] \<and> (\<forall>c\<in>set ds. is_digit_below 16 c)"
  have "py_int (CHR ''0'' # CHR ''x'' # ds) 0 = Inr (int (digits_value 16 ds))"
    using h by (intro py_int_prefixed) auto
  then show "parse_int_string s = Inr (int (digits_value 16 ds))"
    using h by (simp add: parse_int_string_def py_isdigit_def)
next
  fix ds assume h: "strip s = ''0o'' @ ds \<and> ds \<noteq> [] \<and> (\<forall>c\<in>set ds. is_digit_below 8 c)"
  have "py_int (CHR ''0'' # CHR ''o'' # ds) 0 = Inr (int (digits_value 8 ds))"
    using h by (intro py_int_prefixed) auto
  then show "parse_int_string s = Inr (int (digits_value 8 ds))"
    using h by (simp add: parse_int_string_def py_isdigit_def)
next
  assume h: "strip s \<noteq> [] \<and> hd (strip s) \<noteq> CHR ''0'' \<and> (\<forall>c\<in>set (strip s). is_digit_below 10 c)"
  then have "py_int (strip s) 0 = Inr (int (digits_value 10 (strip s)))"
    by (intro py_int_decimal) auto
  then show "parse_int_string s = Inr (int (digits_value 10 (strip s)))"
    using h by (cases "strip s") (auto simp: parse_int_string_def)
qed

theorem parse_int_string_cases_witness:
  "parse_int_string '' '' = Inr 0 \<and> parse_int_string ''017'' = Inr 15 \<and>
   parse_int_string ''08'' = Inl (ValueError InvalidLiteral) \<and>
   parse_int_string ''0x1F'' = Inr 31 \<and> parse_int_string ''0o17'' = Inr 15 \<and>
   parse_int_string '' 42 '' = Inr 42 \<and> parse_int_string ''-5'' = Inr (- 5)"
proof -
  have sp: "strip '' '' = []" "strip ''017'' = ''017''" "strip ''08'' = ''08''"
    "strip ''0x1F'' = ''0x1F''" "strip ''0o17'' = ''0o17''" "strip '' 42 '' = ''42''"
    "strip ''-5'' = ''-5''"
    by (simp_all add: strip_def py_isspace_def)
  have i: "py_int ''08'' 8 = Inl (ValueError InvalidLiteral)" "py_int ''-5'' 0 = Inr (- 5)"
    by (simp_all add: py_int_def split_sign_def detect_base_def skip_prefix_def to_ascii_def
        c_isspace_def digit_value_def)
  have 1: "parse_int_string '' '' = Inr 0"
    using parse_int_string_cases [of "'' ''"] by (simp add: py_isspace_def)
  have 2: "parse_int_string ''017'' = Inr 15"
    using parse_int_string_cases [of "''017''"]
    by (simp (no_asm_use) add: sp is_digit_below_def digit_value_def digits_value_def) blast
  have 3: "parse_int_string ''08'' = Inl (ValueError InvalidLiteral)"
    using parse_int_string_cases [of "''08''"]
    by (simp (no_asm_use) add: sp i py_isdigit_def) blast
  have 4: "parse_int_string ''0x1F'' = Inr 31"
    using parse_int_string_cases [of "''0x1F''"]
    by (simp (no_asm_use) add: sp is_digit_below_def digit_value_def digits_value_def) blast
  have 5: "parse_int_string ''0o17'' = Inr 15"
    using parse_int_string_cases [of "''0o17''"]
    by (simp (no_asm_use) add: sp is_digit_below_def digit_value_def digits_value_def) blast
  have 6: "parse_int_string '' 42 '' = Inr 42"
    using parse_int_string_cases [of "'' 42 ''"]
    by (simp (no_asm_use) add: sp is_digit_below_def digit_value_def digits_value_def) blast
  have 7: "parse_int_string ''-5'' = Inr (- 5)"
    using parse_int_string_cases [of "''-5''"]
    by (simp (no_asm_use) add: sp i) blast
  show ?thesis using 1 2 3 4 5 6 7 by blast
qed

subsection \<open>Version detection and comparison\<close>

text \<open>
  C6. Queried with the major version alone (minor and patch omitted),
  \<open>autosar_version_newer\<close> is true exactly when the detected major version is at least the
  queried one, whatever the detected minor and patch are.
\<close>

theorem autosar_version_newer_major_only:
  "autosar_version_newer self m None None = (m \<le> autosar_version_major self)"
  by (auto simp: autosar_version_newer_def)

text \<open>
  C5. The root tag \<open>{http://autosar.org/schema/r4.2.1}AUTOSAR\<close> has a namespace that matches
  the AUTOSAR 4 pattern, and the version detected for it is (4, 2, 1): the minor and patch
  digits of the namespace are kept, not set to 0.
\<close>

theorem detect_version_r421:
  "match_root_tag ''{http://autosar.org/schema/r4.2.1}AUTOSAR'' = Some ''http://autosar.org/schema/r4.2.1'' \<and>
   match_autosar4 ''http://autosar.org/schema/r4.2.1'' = Some ''4.2.1'' \<and>
   detect_version ''{http://autosar.org/schema/r4.2.1}AUTOSAR'' =
     Inr (''http://autosar.org/schema/r4.2.1'', 4, 2, 1)"
  by code_simp

text \<open>With the namespace that AUTOSAR 4 files use in practice the version is (4, 0, 0).\<close>

lemma detect_version_r40:
  "detect_version ''{http://autosar.org/schema/r4.0}AUTOSAR'' =
     Inr (''http://autosar.org/schema/r4.0'', 4, 0, 0)"
  by code_simp

subsection \<open>The reference index\<close>

lemma add_reference_base_paths:
  "add_reference_base self elem cpp = Inr self' \<Longrightarrow>
   arxml_path_to_node self' = arxml_path_to_node self \<and>
   node_to_arxml_path self' = node_to_arxml_path self \<and>
   xml_namespace self' = xml_namespace self"
  by (auto simp: add_reference_base_def Let_def split: sum.splits if_splits option.splits)

lemma register_path_result:
  assumes "register_path self elem ep = Inr (self1, ep1, sn)"
  shows "node_to_arxml_path self1 = node_to_arxml_path self"
    and "xml_namespace self1 = xml_namespace self"
    and "arxml_path_to_node self1 = arxml_path_to_node self \<or>
         (arxml_path_to_node self ep1 = None \<and>
          arxml_path_to_node self1 = (arxml_path_to_node self)(ep1 \<mapsto> elem))"
  using assms
  by (auto simp: register_path_def Let_def split: option.splits if_splits)

lemma add_sub_references_elem_result:
  assumes "add_sub_references_elem self elem ep cpp = Inr (self', ep', cpp')"
  shows "node_to_arxml_path self' = (node_to_arxml_path self)(fst elem \<mapsto> ep')"
    and "xml_namespace self' = xml_namespace self"
    and "arxml_path_to_node self' = arxml_path_to_node self \<or>
         (arxml_path_to_node self ep' = None \<and>
          arxml_path_to_node self' = (arxml_path_to_node self)(ep' \<mapsto> elem))"
proof -
  obtain self1 sn where r: "register_path self elem ep = Inr (self1, ep', sn)"
    using assms by (auto simp: add_sub_references_elem_def Let_def split: sum.splits if_splits)
  let ?self2 = "self1\<lparr>node_to_arxml_path := (node_to_arxml_path self1)(fst elem \<mapsto> ep')\<rparr>"
  have s: "self' = ?self2 \<or> (\<exists>c. add_reference_base ?self2 elem c = Inr self')"
    using assms r by (auto simp: add_sub_references_elem_def Let_def split: sum.splits if_splits)
  have n: "node_to_arxml_path self' = node_to_arxml_path ?self2"
    and p: "arxml_path_to_node self' = arxml_path_to_node ?self2"
    and x: "xml_namespace self' = xml_namespace ?self2"
    using s add_reference_base_paths [of ?self2 elem _ self'] by auto
  show "node_to_arxml_path self' = (node_to_arxml_path self)(fst elem \<mapsto> ep')"
    using n register_path_result(1) [OF r] by simp
  show "xml_namespace self' = xml_namespace self"
    using x register_path_result(2) [OF r] by simp
  show "arxml_path_to_node self' = arxml_path_to_node self \<or>
         (arxml_path_to_node self ep' = None \<and>
          arxml_path_to_node self' = (arxml_path_to_node self)(ep' \<mapsto> elem))"
    using p register_path_result(3) [OF r] by simp
qed

lemma elem_step_inv:
  assumes "add_sub_references_elem self elem ep cpp = Inr (self', ep', cpp')"
    and "index_inv self" and "node_to_arxml_path self (fst elem) = None"
  shows "index_inv self'"
  unfolding index_inv_def
proof (intro allI impI)
  fix p n assume h: "arxml_path_to_node self' p = Some n"
  note r = add_sub_references_elem_result [OF assms(1)]
  show "node_to_arxml_path self' (fst n) = Some p"
  proof (cases "arxml_path_to_node self p = Some n")
    case True
    then have "node_to_arxml_path self (fst n) = Some p" using assms(2) unfolding index_inv_def by blast
    then show ?thesis using r(1) assms(3) by auto
  next
    case False
    then have "p = ep' \<and> n = elem" using r(3) h by (auto split: if_splits)
    then show ?thesis using r(1) by simp
  qed
qed

lemma traversal_inv:
  "(add_sub_references self pos e ep cpp = Inr self' \<longrightarrow> index_inv self \<longrightarrow>
      (\<forall>q. node_to_arxml_path self q \<noteq> None \<longrightarrow> \<not> prefix pos q) \<longrightarrow>
      index_inv self' \<and>
      (\<forall>q. node_to_arxml_path self' q \<noteq> None \<longrightarrow> node_to_arxml_path self q \<noteq> None \<or> prefix pos q))"
  "(add_sub_references_children self pos i cs ep cpp = Inr self' \<longrightarrow> index_inv self \<longrightarrow>
      (\<forall>q. node_to_arxml_path self q \<noteq> None \<longrightarrow> (\<forall>j\<ge>i. \<not> prefix (pos @ [j]) q)) \<longrightarrow>
      index_inv self' \<and>
      (\<forall>q. node_to_arxml_path self' q \<noteq> None \<longrightarrow>
           node_to_arxml_path self q \<noteq> None \<or> (\<exists>j\<ge>i. prefix (pos @ [j]) q)))"
proof (induction self pos e ep cpp and self pos i cs ep cpp arbitrary: self' and self'
    rule: add_sub_references_add_sub_references_children.induct)
  case (1 self pos t a x cs elem_path cur_package_path)
  show ?case
  proof (intro impI)
    assume run: "add_sub_references self pos (Element t a x cs) elem_path cur_package_path = Inr self'"
      and inv: "index_inv self"
      and fresh: "\<forall>q. node_to_arxml_path self q \<noteq> None \<longrightarrow> \<not> prefix pos q"
    obtain self1 ep1 cpp1 where
      st: "add_sub_references_elem self (pos, Element t a x cs) elem_path cur_package_path = Inr (self1, ep1, cpp1)"
      and ch: "add_sub_references_children self1 pos 0 cs ep1 cpp1 = Inr self'"
      using run by (auto split: sum.splits)
    have none: "node_to_arxml_path self (fst (pos, Element t a x cs)) = None"
      using fresh by auto
    have inv1: "index_inv self1" using elem_step_inv [OF st inv none] .
    have n1: "node_to_arxml_path self1 = (node_to_arxml_path self)(pos \<mapsto> ep1)"
      using add_sub_references_elem_result(1) [OF st] by simp
    have fresh1: "\<forall>q. node_to_arxml_path self1 q \<noteq> None \<longrightarrow> (\<forall>j\<ge>0. \<not> prefix (pos @ [j]) q)"
      using fresh n1 by (auto split: if_splits dest: append_prefixD)
    have ih: "index_inv self' \<and>
      (\<forall>q. node_to_arxml_path self' q \<noteq> None \<longrightarrow>
           node_to_arxml_path self1 q \<noteq> None \<or> (\<exists>j\<ge>0. prefix (pos @ [j]) q))"
      using "1.IH" [OF st refl refl, of self'] ch inv1 fresh1 by blast
    show "index_inv self' \<and>
      (\<forall>q. node_to_arxml_path self' q \<noteq> None \<longrightarrow> node_to_arxml_path self q \<noteq> None \<or> prefix pos q)"
      using ih n1 by (auto split: if_splits dest: append_prefixD)
  qed
next
  case (2 self pos i elem_path cur_package_path)
  then show ?case by auto
next
  case (3 self pos i c cs elem_path cur_package_path)
  show ?case
  proof (intro impI)
    assume run: "add_sub_references_children self pos i (c # cs) elem_path cur_package_path = Inr self'"
      and inv: "index_inv self"
      and fresh: "\<forall>q. node_to_arxml_path self q \<noteq> None \<longrightarrow> (\<forall>j\<ge>i. \<not> prefix (pos @ [j]) q)"
    obtain self1 where
      st: "add_sub_references self (pos @ [i]) c elem_path cur_package_path = Inr self1"
      and ch: "add_sub_references_children self1 pos (Suc i) cs elem_path cur_package_path = Inr self'"
      using run by (auto split: sum.splits)
    have a: "index_inv self1 \<and>
      (\<forall>q. node_to_arxml_path self1 q \<noteq> None \<longrightarrow> node_to_arxml_path self q \<noteq> None \<or> prefix (pos @ [i]) q)"
      using "3.IH"(1) [of self1] st inv fresh by blast
    have diff: "\<And>q j. prefix (pos @ [i]) q \<Longrightarrow> prefix (pos @ [j]) q \<Longrightarrow> i = j"
      by (metis append1_eq_conv length_append_singleton prefix_length_prefix prefix_order.dual_order.antisym order_refl)
    have fresh1: "\<forall>q. node_to_arxml_path self1 q \<noteq> None \<longrightarrow> (\<forall>j\<ge>Suc i. \<not> prefix (pos @ [j]) q)"
    proof (intro allI impI)
      fix q j assume q: "node_to_arxml_path self1 q \<noteq> None" and j: "Suc i \<le> j"
      from a q have "node_to_arxml_path self q \<noteq> None \<or> prefix (pos @ [i]) q" by blast
      then show "\<not> prefix (pos @ [j]) q"
      proof
        assume "node_to_arxml_path self q \<noteq> None"
        then show ?thesis using fresh j by auto
      next
        assume "prefix (pos @ [i]) q"
        then show ?thesis using diff [of q j] j by auto
      qed
    qed
    have b: "index_inv self' \<and>
      (\<forall>q. node_to_arxml_path self' q \<noteq> None \<longrightarrow>
           node_to_arxml_path self1 q \<noteq> None \<or> (\<exists>j\<ge>Suc i. prefix (pos @ [j]) q))"
      using "3.IH"(2) [OF st, of self'] ch a fresh1 by blast
    show "index_inv self' \<and>
      (\<forall>q. node_to_arxml_path self' q \<noteq> None \<longrightarrow>
           node_to_arxml_path self q \<noteq> None \<or> (\<exists>j\<ge>i. prefix (pos @ [j]) q))"
    proof (intro conjI allI impI)
      show "index_inv self'" using b by blast
    next
      fix q assume "node_to_arxml_path self' q \<noteq> None"
      then have "node_to_arxml_path self1 q \<noteq> None \<or> (\<exists>j\<ge>Suc i. prefix (pos @ [j]) q)"
        using b by blast
      then show "node_to_arxml_path self q \<noteq> None \<or> (\<exists>j\<ge>i. prefix (pos @ [j]) q)"
        using a by (metis Suc_leD order_refl)
    qed
  qed
qed


lemma create_dicts_inv:
  assumes "create_arxml_reference_dicts self = Inr self'"
  shows "index_inv self'"
proof -
  let ?s0 = "self\<lparr>node_to_arxml_path := Map.empty, arxml_path_to_node := Map.empty,
              package_default_refbase_path := Map.empty, package_refbase_paths := Map.empty\<rparr>"
  have "index_inv ?s0" by (simp add: index_inv_def)
  moreover have "\<forall>q. node_to_arxml_path ?s0 q \<noteq> None \<longrightarrow> \<not> prefix [] q" by simp
  ultimately show ?thesis
    using traversal_inv(1) [of ?s0 "[]" "loader_root self" "[]" "[]" self'] assms
    unfolding create_arxml_reference_dicts_def by blast
qed

text \<open>
  C7. After the index has been built, the two maps are inverse to each other on every
  registered node: a node registered under the path \<open>p\<close> is sent back to \<open>p\<close> by the
  node-to-path map, and looking that path up again gives the same node.
\<close>

theorem index_round_trip:
  assumes "system_loader_init root_element strict_flag float_fn decimal_fn = Inr self"
    and "arxml_path_to_node self p = Some n"
  shows "node_to_arxml_path self (fst n) = Some p \<and>
         Option.bind (node_to_arxml_path self (fst n)) (arxml_path_to_node self) = Some n"
proof -
  obtain s0 where "create_arxml_reference_dicts s0 = Inr self"
    using assms(1) by (auto simp: system_loader_init_def split: sum.splits)
  then have "index_inv self" by (rule create_dicts_inv)
  then have "node_to_arxml_path self (fst n) = Some p"
    using assms(2) unfolding index_inv_def by blast
  then show ?thesis using assms(2) by simp
qed

lemma ev1: "case system_loader_init example_doc True (\<lambda>s. None) (\<lambda>s. None) of Inl e \<Rightarrow> False
   | Inr self \<Rightarrow> arxml_path_to_node self ''/P/A'' = Some ([0,0,1,0], xml_node ''X'' [xml_leaf ''SHORT-NAME'' ''A''])"
  by code_simp

theorem index_round_trip_witness:
  "\<exists>self. system_loader_init example_doc True (\<lambda>s. None) (\<lambda>s. None) = Inr self \<and>
     arxml_path_to_node self ''/P/A'' = Some ([0,0,1,0], xml_node ''X'' [xml_leaf ''SHORT-NAME'' ''A'']) \<and>
     node_to_arxml_path self [0,0,1,0] = Some ''/P/A''"
proof -
  obtain self where a: "system_loader_init example_doc True (\<lambda>s. None) (\<lambda>s. None) = Inr self"
    and b: "arxml_path_to_node self ''/P/A'' = Some ([0,0,1,0], xml_node ''X'' [xml_leaf ''SHORT-NAME'' ''A''])"
    using ev1 by (auto split: sum.splits)
  show ?thesis using index_round_trip [OF a b] a b by auto
qed


lemma traversal_keeps:
  "(add_sub_references self pos e ep cpp = Inr self' \<longrightarrow> arxml_path_to_node self p = Some n \<longrightarrow>
      arxml_path_to_node self' p = Some n)"
  "(add_sub_references_children self pos i cs ep cpp = Inr self' \<longrightarrow> arxml_path_to_node self p = Some n \<longrightarrow>
      arxml_path_to_node self' p = Some n)"
proof (induction self pos e ep cpp and self pos i cs ep cpp arbitrary: self' and self'
    rule: add_sub_references_add_sub_references_children.induct)
  case (1 self pos t a x cs elem_path cur_package_path)
  show ?case
  proof (intro impI)
    assume run: "add_sub_references self pos (Element t a x cs) elem_path cur_package_path = Inr self'"
      and old: "arxml_path_to_node self p = Some n"
    obtain self1 ep1 cpp1 where
      st: "add_sub_references_elem self (pos, Element t a x cs) elem_path cur_package_path = Inr (self1, ep1, cpp1)"
      and ch: "add_sub_references_children self1 pos 0 cs ep1 cpp1 = Inr self'"
      using run by (auto split: sum.splits)
    have "arxml_path_to_node self1 p = Some n"
      using add_sub_references_elem_result(3) [OF st] old by auto
    then show "arxml_path_to_node self' p = Some n"
      using "1.IH" [OF st refl refl, of self'] ch by blast
  qed
next
  case (2 self pos i elem_path cur_package_path)
  then show ?case by auto
next
  case (3 self pos i c cs elem_path cur_package_path)
  show ?case
  proof (intro impI)
    assume run: "add_sub_references_children self pos i (c # cs) elem_path cur_package_path = Inr self'"
      and old: "arxml_path_to_node self p = Some n"
    obtain self1 where
      st: "add_sub_references self (pos @ [i]) c elem_path cur_package_path = Inr self1"
      and ch: "add_sub_references_children self1 pos (Suc i) cs elem_path cur_package_path = Inr self'"
      using run by (auto split: sum.splits)
    have "arxml_path_to_node self1 p = Some n" using "3.IH"(1) [of self1] st old by blast
    then show "arxml_path_to_node self' p = Some n" using "3.IH"(2) [OF st, of self'] ch by blast
  qed
qed

lemma find_indexed:
  "map_option snd (List.find (\<lambda>c. Q (snd c)) (map (\<lambda>(i, c). (pos @ [i], c)) (zip [k..<k + length cs] cs))) =
   List.find Q cs"
proof (induction cs arbitrary: k)
  case Nil
  then show ?case by simp
next
  case (Cons c cs)
  have "[k..<k + length (c # cs)] = k # [Suc k..<Suc k + length cs]"
    using upt_rec [of k "k + length (c # cs)"] by simp
  then show ?case using Cons [of "Suc k"] by simp
qed

lemma find_child_snd:
  "map_option snd (find_child ns (pos, e) name) = List.find (\<lambda>c. etag c = ns_tag ns name) (echildren e)"
  using find_indexed [of "\<lambda>c. etag c = ns_tag ns name" pos 0 "echildren e"]
  by (simp add: find_child_def node_children_def)

lemma register_path_own:
  assumes "register_path self (pos, e) ep = Inr (self1, ep1, sn)"
  shows "ep1 = own_path (xml_namespace self) ep e"
    and "short_name_text (xml_namespace self) e \<noteq> None \<Longrightarrow> arxml_path_to_node self1 ep1 = Some (pos, e)"
proof -
  have f: "map_option snd (find_child (xml_namespace self) (pos, e) ''SHORT-NAME'') =
      List.find (\<lambda>c. etag c = ns_tag (xml_namespace self) ''SHORT-NAME'') (echildren e)"
    by (rule find_child_snd)
  show "ep1 = own_path (xml_namespace self) ep e"
    using assms f
    by (auto simp: register_path_def own_path_def short_name_text_def Let_def
        split: option.splits if_splits)
  show "arxml_path_to_node self1 ep1 = Some (pos, e)"
    if "short_name_text (xml_namespace self) e \<noteq> None"
    using assms f that
    by (auto simp: register_path_def own_path_def short_name_text_def Let_def
        split: option.splits if_splits)
qed

lemma elem_step_own:
  assumes "add_sub_references_elem self (pos, e) ep cpp = Inr (self', ep', cpp')"
  shows "ep' = own_path (xml_namespace self) ep e"
    and "short_name_text (xml_namespace self) e \<noteq> None \<Longrightarrow> arxml_path_to_node self' ep' = Some (pos, e)"
proof -
  obtain self1 sn where r: "register_path self (pos, e) ep = Inr (self1, ep', sn)"
    using assms by (auto simp: add_sub_references_elem_def Let_def split: sum.splits if_splits)
  let ?self2 = "self1\<lparr>node_to_arxml_path := (node_to_arxml_path self1)(fst (pos, e) \<mapsto> ep')\<rparr>"
  have s: "self' = ?self2 \<or> (\<exists>c. add_reference_base ?self2 (pos, e) c = Inr self')"
    using assms r by (auto simp: add_sub_references_elem_def Let_def split: sum.splits if_splits)
  have p: "arxml_path_to_node self' = arxml_path_to_node self1"
    using s add_reference_base_paths [of ?self2 "(pos, e)" _ self'] by auto
  show "ep' = own_path (xml_namespace self) ep e" using register_path_own(1) [OF r] .
  show "arxml_path_to_node self' ep' = Some (pos, e)"
    if "short_name_text (xml_namespace self) e \<noteq> None"
    using register_path_own(2) [OF r that] p by simp
qed

lemma traversal_ns:
  "(add_sub_references self pos e ep cpp = Inr self' \<longrightarrow> xml_namespace self' = xml_namespace self)"
  "(add_sub_references_children self pos i cs ep cpp = Inr self' \<longrightarrow> xml_namespace self' = xml_namespace self)"
proof (induction self pos e ep cpp and self pos i cs ep cpp arbitrary: self' and self'
    rule: add_sub_references_add_sub_references_children.induct)
  case (1 self pos t a x cs elem_path cur_package_path)
  show ?case
  proof (intro impI)
    assume run: "add_sub_references self pos (Element t a x cs) elem_path cur_package_path = Inr self'"
    obtain self1 ep1 cpp1 where
      st: "add_sub_references_elem self (pos, Element t a x cs) elem_path cur_package_path = Inr (self1, ep1, cpp1)"
      and ch: "add_sub_references_children self1 pos 0 cs ep1 cpp1 = Inr self'"
      using run by (auto split: sum.splits)
    show "xml_namespace self' = xml_namespace self"
      using "1.IH" [OF st refl refl, of self'] ch add_sub_references_elem_result(2) [OF st] by simp
  qed
next
  case (2 self pos i elem_path cur_package_path)
  then show ?case by auto
next
  case (3 self pos i c cs elem_path cur_package_path)
  show ?case
  proof (intro impI)
    assume run: "add_sub_references_children self pos i (c # cs) elem_path cur_package_path = Inr self'"
    obtain self1 where
      st: "add_sub_references self (pos @ [i]) c elem_path cur_package_path = Inr self1"
      and ch: "add_sub_references_children self1 pos (Suc i) cs elem_path cur_package_path = Inr self'"
      using run by (auto split: sum.splits)
    show "xml_namespace self' = xml_namespace self"
      using "3.IH"(1) [of self1] "3.IH"(2) [OF st, of self'] st ch by simp
  qed
qed


lemma traversal_complete:
  "(add_sub_references self pos e ep cpp = Inr self' \<longrightarrow>
      path_at (xml_namespace self) ep e r = Some (p, e') \<longrightarrow>
      short_name_text (xml_namespace self) e' \<noteq> None \<longrightarrow>
      arxml_path_to_node self' p = Some (pos @ r, e'))"
  "(add_sub_references_children self pos i cs ep cpp = Inr self' \<longrightarrow>
      k < length cs \<longrightarrow>
      path_at (xml_namespace self) ep (cs ! k) r = Some (p, e') \<longrightarrow>
      short_name_text (xml_namespace self) e' \<noteq> None \<longrightarrow>
      arxml_path_to_node self' p = Some (pos @ (i + k) # r, e'))"
proof (induction self pos e ep cpp and self pos i cs ep cpp arbitrary: self' r p e' and self' k r p e'
    rule: add_sub_references_add_sub_references_children.induct)
  case (1 self pos t a x cs elem_path cur_package_path)
  let ?e = "Element t a x cs"
  show ?case
  proof (intro impI)
    assume run: "add_sub_references self pos ?e elem_path cur_package_path = Inr self'"
      and at: "path_at (xml_namespace self) elem_path ?e r = Some (p, e')"
      and named: "short_name_text (xml_namespace self) e' \<noteq> None"
    obtain self1 ep1 cpp1 where
      st: "add_sub_references_elem self (pos, ?e) elem_path cur_package_path = Inr (self1, ep1, cpp1)"
      and ch: "add_sub_references_children self1 pos 0 cs ep1 cpp1 = Inr self'"
      using run by (auto split: sum.splits)
    have ns: "xml_namespace self1 = xml_namespace self"
      using add_sub_references_elem_result(2) [OF st] by simp
    have ep1: "ep1 = own_path (xml_namespace self) elem_path ?e"
      using elem_step_own(1) [OF st] .
    show "arxml_path_to_node self' p = Some (pos @ r, e')"
    proof (cases r)
      case Nil
      then have pe: "p = ep1" "e' = ?e" using at ep1 by auto
      have "arxml_path_to_node self1 ep1 = Some (pos, ?e)"
        using elem_step_own(2) [OF st] named pe by simp
      then show ?thesis using traversal_keeps(2) ch pe Nil by simp
    next
      case (Cons j r')
      then have j: "j < length cs" and at': "path_at (xml_namespace self1) ep1 (cs ! j) r' = Some (p, e')"
        using at ep1 ns by (auto split: if_splits)
      have "arxml_path_to_node self' p = Some (pos @ (0 + j) # r', e')"
        using "1.IH" [OF st refl refl, of self' j r' p e'] ch j at' named ns by simp
      then show ?thesis using Cons by simp
    qed
  qed
next
  case (2 self pos i elem_path cur_package_path)
  then show ?case by simp
next
  case (3 self pos i c cs elem_path cur_package_path)
  show ?case
  proof (intro impI)
    assume run: "add_sub_references_children self pos i (c # cs) elem_path cur_package_path = Inr self'"
      and k: "k < length (c # cs)"
      and at: "path_at (xml_namespace self) elem_path ((c # cs) ! k) r = Some (p, e')"
      and named: "short_name_text (xml_namespace self) e' \<noteq> None"
    obtain self1 where
      st: "add_sub_references self (pos @ [i]) c elem_path cur_package_path = Inr self1"
      and ch: "add_sub_references_children self1 pos (Suc i) cs elem_path cur_package_path = Inr self'"
      using run by (auto split: sum.splits)
    have ns: "xml_namespace self1 = xml_namespace self"
      using traversal_ns(1) st by blast
    show "arxml_path_to_node self' p = Some (pos @ (i + k) # r, e')"
    proof (cases k)
      case 0
      then have "arxml_path_to_node self1 p = Some ((pos @ [i]) @ r, e')"
        using "3.IH"(1) [of self1 r p e'] st at named by simp
      then show ?thesis using traversal_keeps(2) ch 0 by simp
    next
      case (Suc k')
      then have "arxml_path_to_node self' p = Some (pos @ (Suc i + k') # r, e')"
        using "3.IH"(2) [OF st, of self' k' r p e'] ch k at named ns by simp
      then show ?thesis using Suc by simp
    qed
  qed
qed

lemma elem_step_error:
  assumes "add_sub_references_elem self (pos, e) ep cpp = Inl err"
    and "etag e \<noteq> ns_tag (xml_namespace self) ''REFERENCE-BASE''"
  shows "\<exists>p. err = ValueError (DuplicatePath p)"
  using assms
  by (auto simp: add_sub_references_elem_def register_path_def Let_def
      split: sum.splits option.splits if_splits)

lemma traversal_error:
  "(add_sub_references self pos e ep cpp = Inl err \<longrightarrow>
      \<not> has_tag (ns_tag (xml_namespace self) ''REFERENCE-BASE'') e \<longrightarrow>
      (\<exists>p. err = ValueError (DuplicatePath p)))"
  "(add_sub_references_children self pos i cs ep cpp = Inl err \<longrightarrow>
      \<not> list_ex (has_tag (ns_tag (xml_namespace self) ''REFERENCE-BASE'')) cs \<longrightarrow>
      (\<exists>p. err = ValueError (DuplicatePath p)))"
proof (induction self pos e ep cpp and self pos i cs ep cpp
    rule: add_sub_references_add_sub_references_children.induct)
  case (1 self pos t a x cs elem_path cur_package_path)
  let ?e = "Element t a x cs"
  show ?case
  proof (intro impI)
    assume run: "add_sub_references self pos ?e elem_path cur_package_path = Inl err"
      and no: "\<not> has_tag (ns_tag (xml_namespace self) ''REFERENCE-BASE'') ?e"
    show "\<exists>p. err = ValueError (DuplicatePath p)"
    proof (cases "add_sub_references_elem self (pos, ?e) elem_path cur_package_path")
      case (Inl err1)
      then have "err1 = err" using run by simp
      then show ?thesis using elem_step_error [of self pos ?e elem_path cur_package_path err] Inl no
        by simp
    next
      case (Inr res)
      obtain self1 ep1 cpp1 where res: "res = (self1, ep1, cpp1)" by (cases res) auto
      have st: "add_sub_references_elem self (pos, ?e) elem_path cur_package_path = Inr (self1, ep1, cpp1)"
        using Inr res by simp
      have ch: "add_sub_references_children self1 pos 0 cs ep1 cpp1 = Inl err"
        using run st by simp
      have ns: "xml_namespace self1 = xml_namespace self"
        using add_sub_references_elem_result(2) [OF st] by simp
      show ?thesis using "1.IH" [OF st refl refl] ch no ns by simp
    qed
  qed
next
  case (2 self pos i elem_path cur_package_path)
  then show ?case by simp
next
  case (3 self pos i c cs elem_path cur_package_path)
  show ?case
  proof (intro impI)
    assume run: "add_sub_references_children self pos i (c # cs) elem_path cur_package_path = Inl err"
      and no: "\<not> list_ex (has_tag (ns_tag (xml_namespace self) ''REFERENCE-BASE'')) (c # cs)"
    show "\<exists>p. err = ValueError (DuplicatePath p)"
    proof (cases "add_sub_references self (pos @ [i]) c elem_path cur_package_path")
      case (Inl err1)
      then have "err1 = err" using run by simp
      then show ?thesis using "3.IH"(1) Inl no by simp
    next
      case (Inr self1)
      have ch: "add_sub_references_children self1 pos (Suc i) cs elem_path cur_package_path = Inl err"
        using run Inr by simp
      have ns: "xml_namespace self1 = xml_namespace self"
        using traversal_ns(1) Inr by blast
      show ?thesis using "3.IH"(2) [OF Inr] ch no ns by simp
    qed
  qed
qed

text \<open>
  C4. The indexing traversal rejects a duplicate path, and the load fails with it. When two
  different elements of the document, both with a \<open>SHORT-NAME\<close> child, have the same
  computed path, the construction of the loader raises; when the document has no
  \<open>REFERENCE-BASE\<close> element (whose handling raises errors of its own), what it raises is
  the duplicate-path error. Nothing is overwritten: after a successful construction the
  path of every named element leads to that very element.
\<close>

theorem duplicate_path_rejected:
  assumes "detect_version (etag root_element) = Inr (ns, major, minor, patch)"
  shows "(path_at ns [] root_element q1 = Some (p, e1) \<and> short_name_text ns e1 \<noteq> None \<and>
          path_at ns [] root_element q2 = Some (p, e2) \<and> short_name_text ns e2 \<noteq> None \<and> q1 \<noteq> q2 \<longrightarrow>
            (\<exists>err. system_loader_init root_element strict_flag float_fn decimal_fn = Inl err) \<and>
            (\<not> has_tag (ns_tag ns ''REFERENCE-BASE'') root_element \<longrightarrow>
               (\<exists>dup. system_loader_init root_element strict_flag float_fn decimal_fn =
                        Inl (ValueError (DuplicatePath dup))))) \<and>
         (system_loader_init root_element strict_flag float_fn decimal_fn = Inr self \<and>
          path_at ns [] root_element q = Some (p, e) \<and> short_name_text ns e \<noteq> None \<longrightarrow>
            arxml_path_to_node self p = Some (q, e))"
proof -
  let ?self0 = "\<lparr>loader_root = root_element, loader_strict = strict_flag, xml_namespace = ns,
             autosar_version_major = major, autosar_version_minor = minor,
             autosar_version_patch = patch, node_to_arxml_path = Map.empty,
             arxml_path_to_node = Map.empty, package_default_refbase_path = Map.empty,
             package_refbase_paths = Map.empty, py_float = float_fn, py_decimal = decimal_fn\<rparr>"
  let ?self1 = "?self0\<lparr>node_to_arxml_path := Map.empty, arxml_path_to_node := Map.empty,
              package_default_refbase_path := Map.empty, package_refbase_paths := Map.empty\<rparr>"
  have init: "system_loader_init root_element strict_flag float_fn decimal_fn =
      add_sub_references ?self1 [] root_element [] []"
    using assms by (simp add: system_loader_init_def create_arxml_reference_dicts_def)
  have ns: "xml_namespace ?self1 = ns" by simp
  have complete: "arxml_path_to_node s p' = Some (r, e')"
    if "system_loader_init root_element strict_flag float_fn decimal_fn = Inr s"
      and "path_at ns [] root_element r = Some (p', e')" and "short_name_text ns e' \<noteq> None"
    for s p' r e'
    using traversal_complete(1) [of ?self1 "[]" root_element "[]" "[]" s r p' e'] that init
    unfolding ns by simp
  show ?thesis
  proof (intro conjI impI)
    assume h: "path_at ns [] root_element q1 = Some (p, e1) \<and> short_name_text ns e1 \<noteq> None \<and>
          path_at ns [] root_element q2 = Some (p, e2) \<and> short_name_text ns e2 \<noteq> None \<and> q1 \<noteq> q2"
    have no: "system_loader_init root_element strict_flag float_fn decimal_fn \<noteq> Inr s" for s
    proof
      assume ok: "system_loader_init root_element strict_flag float_fn decimal_fn = Inr s"
      have "arxml_path_to_node s p = Some (q1, e1)" "arxml_path_to_node s p = Some (q2, e2)"
        using complete [OF ok] h by blast+
      then show False using h by simp
    qed
    then obtain err where err: "system_loader_init root_element strict_flag float_fn decimal_fn = Inl err"
      by (cases "system_loader_init root_element strict_flag float_fn decimal_fn") auto
    show "\<exists>err. system_loader_init root_element strict_flag float_fn decimal_fn = Inl err"
      using err by blast
    show "\<exists>dup. system_loader_init root_element strict_flag float_fn decimal_fn =
                        Inl (ValueError (DuplicatePath dup))"
      if "\<not> has_tag (ns_tag ns ''REFERENCE-BASE'') root_element"
      using traversal_error(1) [of ?self1 "[]" root_element "[]" "[]" err] that err init
      unfolding ns by simp
  next
    assume "system_loader_init root_element strict_flag float_fn decimal_fn = Inr self \<and>
          path_at ns [] root_element q = Some (p, e) \<and> short_name_text ns e \<noteq> None"
    then show "arxml_path_to_node self p = Some (q, e)"
      using complete by blast
  qed
qed

lemma ev2:
  "detect_version (etag duplicate_doc) = Inr (example_ns, 4, 0, 0)"
  "path_at example_ns [] duplicate_doc [0, 0, 1, 0] = Some (''/P/A'', xml_node ''X'' [xml_leaf ''SHORT-NAME'' ''A''])"
  "path_at example_ns [] duplicate_doc [0, 0, 1, 1] = Some (''/P/A'', xml_node ''X'' [xml_leaf ''SHORT-NAME'' ''A''])"
  "short_name_text example_ns (xml_node ''X'' [xml_leaf ''SHORT-NAME'' ''A'']) \<noteq> None"
  "\<not> has_tag (ns_tag example_ns ''REFERENCE-BASE'') duplicate_doc"
  "case system_loader_init duplicate_doc True (\<lambda>s. None) (\<lambda>s. None) of
     Inl e \<Rightarrow> e = ValueError (DuplicatePath ''/P/A'') | Inr s \<Rightarrow> False"
  "detect_version (etag example_doc) = Inr (example_ns, 4, 0, 0)"
  "path_at example_ns [] example_doc [0, 0, 1, 0] = Some (''/P/A'', xml_node ''X'' [xml_leaf ''SHORT-NAME'' ''A''])"
  "case system_loader_init example_doc True (\<lambda>s. None) (\<lambda>s. None) of Inl e \<Rightarrow> False | Inr s \<Rightarrow> True"
  by code_simp+


theorem duplicate_path_rejected_witness:
  "system_loader_init duplicate_doc True (\<lambda>s. None) (\<lambda>s. None) = Inl (ValueError (DuplicatePath ''/P/A'')) \<and>
   (\<exists>self. system_loader_init example_doc True (\<lambda>s. None) (\<lambda>s. None) = Inr self \<and>
      arxml_path_to_node self ''/P/A'' = Some ([0, 0, 1, 0], xml_node ''X'' [xml_leaf ''SHORT-NAME'' ''A'']))"
proof -
  have "\<exists>dup. system_loader_init duplicate_doc True (\<lambda>s. None) (\<lambda>s. None) = Inl (ValueError (DuplicatePath dup))"
    using duplicate_path_rejected [OF ev2(1), where ?q1.0 = "[0, 0, 1, 0]" and ?q2.0 = "[0, 0, 1, 1]"
        and p = "''/P/A''" and ?e1.0 = "xml_node ''X'' [xml_leaf ''SHORT-NAME'' ''A'']"
        and ?e2.0 = "xml_node ''X'' [xml_leaf ''SHORT-NAME'' ''A'']"
        and strict_flag = True and float_fn = "\<lambda>s. None" and decimal_fn = "\<lambda>s. None"]
      ev2(2,3,4,5) by simp
  then have 1: "system_loader_init duplicate_doc True (\<lambda>s. None) (\<lambda>s. None) = Inl (ValueError (DuplicatePath ''/P/A''))"
    using ev2(6) by (auto split: sum.splits)
  obtain self where r: "system_loader_init example_doc True (\<lambda>s. None) (\<lambda>s. None) = Inr self"
    using ev2(9) by (auto split: sum.splits)
  have 2: "arxml_path_to_node self ''/P/A'' = Some ([0, 0, 1, 0], xml_node ''X'' [xml_leaf ''SHORT-NAME'' ''A''])"
    using duplicate_path_rejected [OF ev2(7), where self = self and q = "[0, 0, 1, 0]"
        and p = "''/P/A''" and e = "xml_node ''X'' [xml_leaf ''SHORT-NAME'' ''A'']"
        and strict_flag = True and float_fn = "\<lambda>s. None" and decimal_fn = "\<lambda>s. None"]
      r ev2(8,4) by simp
  show ?thesis using 1 2 r by blast
qed

subsection \<open>Multiplexed PDUs\<close>

lemma load_pdu_index:
  "load_pdu depth self pdu frame_name n = Inr (n', bit_length, signals, cycle_time) \<Longrightarrow> n' = n"
proof (cases depth)
  case 0
  then show "load_pdu depth self pdu frame_name n = Inr (n', bit_length, signals, cycle_time) \<Longrightarrow> n' = n"
    by simp
next
  case (Suc d)
  then show "load_pdu depth self pdu frame_name n = Inr (n', bit_length, signals, cycle_time) \<Longrightarrow> n' = n"
    by (simp del: load_pdu_multiplexed_parts.simps split: sum.splits if_splits prod.splits)
qed

lemma load_static_parts_index:
  "load_static_parts depth self frame_name static_pdus (n, acc) = Inr (n', signals) \<Longrightarrow> n' = n"
proof (induction static_pdus arbitrary: acc)
  case Nil
  then show ?case by simp
next
  case (Cons static_pdu rest)
  then show ?case
    by (auto split: sum.splits prod.splits dest: load_pdu_index)
qed

lemma load_dynamic_alternatives_index:
  "load_dynamic_alternatives depth self frame_name selector_pos selector_len dynalts (n, sel, acc) =
     Inr (n', sel', signals) \<Longrightarrow> n' = n"
proof (induction dynalts arbitrary: sel acc)
  case Nil
  then show ?case by simp
next
  case (Cons dynalt rest)
  then show ?case
    by (auto split: sum.splits prod.splits dest: load_pdu_index)
qed

lemma merge_dynalt_name:
  "merge_dynalt self dynalt selector_pos selector_len v dynalt_signals sel = Inr (sel', claimed) \<Longrightarrow>
     sig_name sel' = sig_name sel"
  by (auto simp: merge_dynalt_def bind_err_def Let_def split: sum.splits if_splits option.splits)

lemma load_dynamic_alternatives_name:
  "load_dynamic_alternatives depth self frame_name selector_pos selector_len dynalts (n, sel, acc) =
     Inr (n', sel', signals) \<Longrightarrow> sig_name sel' = sig_name sel"
proof (induction dynalts arbitrary: n sel acc)
  case Nil
  then show ?case by simp
next
  case (Cons dynalt rest)
  then show ?case
    by (fastforce split: sum.splits prod.splits dest: merge_dynalt_name)
qed

lemma make_selector_signal_name:
  "make_selector_signal self pdu frame_name n = Inr (selector_pos, selector_len, sel) \<Longrightarrow>
     sig_name sel = Some (py_str frame_name @ ''_selector'' @ str_int n)"
  by (auto simp: make_selector_signal_def bind_err_def split: sum.splits)

lemma load_pdu_multiplexed_parts_name:
  assumes "load_pdu_multiplexed_parts depth self pdu frame_name n = Inr mux_signals"
  shows "\<exists>sel rest. mux_signals = sel # rest \<and>
           sig_name sel = Some (py_str frame_name @ ''_selector'' @ str_int n)"
proof -
  obtain selector_pos selector_len sel0 dynalts n1 sel1 dyn where
    a: "make_selector_signal self pdu frame_name n = Inr (selector_pos, selector_len, sel0)"
    and b: "load_dynamic_alternatives depth self frame_name selector_pos selector_len dynalts (n + 1, sel0, []) =
          Inr (n1, sel1, dyn)"
    and c: "\<exists>rest. mux_signals = sel1 # rest"
    using assms by (auto split: sum.splits prod.splits)
  show ?thesis
    using c load_dynamic_alternatives_name [OF b] make_selector_signal_name [OF a] by auto
qed

text \<open>
  The load of the multiplexed PDU \<open>M\<close> of the document with nested multiplexers, for a
  frame \<open>F\<close> and the selector index 1.
\<close>

lemma nested_eval:
  "case system_loader_init nested_doc True (\<lambda>s. None) (\<lambda>s. None) of
     Inl e \<Rightarrow> False
   | Inr s \<Rightarrow>
       (case get_arxml_children s (arxml_path_to_node s ''/P/M'') (dynpart_spec s) of
          Inl e \<Rightarrow> False
        | Inr dynalts \<Rightarrow> length dynalts = 2) \<and>
       (case load_pdu 3 s (arxml_path_to_node s ''/P/M'') (Some ''F'') 1 of
          Inl e \<Rightarrow> False
        | Inr (n, bl, sigs, ct) \<Rightarrow>
            n = 1 \<and>
            map sig_name sigs = [Some ''F_selector1'', Some ''F_selector2'', Some ''F_selector2''] \<and>
            map sig_is_multiplexer sigs = [True, True, True] \<and>
            map sig_multiplexer_ids sigs = [None, Some [0], Some [1]] \<and>
            sig_choices (hd sigs) = Some [] \<and>
            sig_initial (hd sigs) = Some (InitialNumber (PyInt 0)))"
  by code_simp

text \<open>
  C1. The selector index that \<open>_load_pdu\<close> returns is the one it was given, also when
  the PDU is multiplexed and a selector signal has been made with that index. So the
  loops over the dynamic alternatives and over the static parts end with the index they
  started with, and every nested PDU of a multiplexed PDU loaded with the index \<open>n\<close> is
  loaded with \<open>n + 1\<close>: nested multiplexers in two alternatives get the same name.
\<close>

theorem selector_index_not_advanced:
  "(load_pdu depth self pdu frame_name n = Inr (n1, bit_length, signals, cycle_time) \<longrightarrow> n1 = n) \<and>
   (load_pdu_multiplexed_parts depth self pdu frame_name n = Inr mux_signals \<longrightarrow>
      (\<exists>sel rest. mux_signals = sel # rest \<and>
         sig_name sel = Some (py_str frame_name @ ''_selector'' @ str_int n))) \<and>
   (load_dynamic_alternatives depth self frame_name selector_pos selector_len dynalts (n, sel0, acc) =
      Inr (n2, sel2, signals2) \<longrightarrow> n2 = n) \<and>
   (load_static_parts depth self frame_name static_pdus (n, acc3) = Inr (n3, signals3) \<longrightarrow> n3 = n)"
proof (intro conjI impI)
  assume "load_pdu depth self pdu frame_name n = Inr (n1, bit_length, signals, cycle_time)"
  then show "n1 = n" by (rule load_pdu_index)
next
  assume "load_pdu_multiplexed_parts depth self pdu frame_name n = Inr mux_signals"
  then show "\<exists>sel rest. mux_signals = sel # rest \<and>
         sig_name sel = Some (py_str frame_name @ ''_selector'' @ str_int n)"
    by (rule load_pdu_multiplexed_parts_name)
next
  assume "load_dynamic_alternatives depth self frame_name selector_pos selector_len dynalts (n, sel0, acc) =
      Inr (n2, sel2, signals2)"
  then show "n2 = n" by (rule load_dynamic_alternatives_index)
next
  assume "load_static_parts depth self frame_name static_pdus (n, acc3) = Inr (n3, signals3)"
  then show "n3 = n" by (rule load_static_parts_index)
qed

theorem selector_index_not_advanced_witness:
  "\<exists>s bl sigs ct.
     system_loader_init nested_doc True (\<lambda>s. None) (\<lambda>s. None) = Inr s \<and>
     load_pdu 3 s (arxml_path_to_node s ''/P/M'') (Some ''F'') 1 = Inr (1, bl, sigs, ct) \<and>
     map sig_name sigs = [Some ''F_selector1'', Some ''F_selector2'', Some ''F_selector2'']"
proof -
  obtain s n bl sigs ct where
    a: "system_loader_init nested_doc True (\<lambda>s. None) (\<lambda>s. None) = Inr s"
    and b: "load_pdu 3 s (arxml_path_to_node s ''/P/M'') (Some ''F'') 1 = Inr (n, bl, sigs, ct)"
    and c: "map sig_name sigs = [Some ''F_selector1'', Some ''F_selector2'', Some ''F_selector2'']"
    using nested_eval by (auto split: sum.splits)
  have "n = 1"
    using selector_index_not_advanced [THEN conjunct1, rule_format, OF b] .
  then have b1: "load_pdu 3 s (arxml_path_to_node s ''/P/M'') (Some ''F'') 1 = Inr (1, bl, sigs, ct)"
    using b by simp
  show ?thesis
    by (rule exI [of _ s], rule exI [of _ bl], rule exI [of _ sigs], rule exI [of _ ct])
      (simp only: a b1 c simp_thms)
qed

end
